theory Spec2Isabelle
  imports Complex_Main "HOL-Library.Word" "HOL-Library.AList"
begin

section \<open>Strings of the source language\<close>

text \<open>
  The component is TypeScript: a string is a sequence of 16-bit code units. String
  constants of the source that are plain ASCII are written through \<open>ascii\<close>.
\<close>

type_synonym code_unit = "16 word"
type_synonym jsstring = "code_unit list"

definition ascii :: "string \<Rightarrow> jsstring" where
  "ascii s = map (\<lambda>c. of_nat (of_char c)) s"

text \<open>
  White space and line terminators of the language: what \<open>\s\<close> matches in a regular
  expression and what \<open>String.prototype.trim\<close> strips.
\<close>

definition isWhiteSpace :: "code_unit \<Rightarrow> bool" where
  "isWhiteSpace c =
     (c = 0x09 \<or> c = 0x0A \<or> c = 0x0B \<or> c = 0x0C \<or> c = 0x0D \<or> c = 0x20 \<or> c = 0xA0
      \<or> c = 0x1680 \<or> (0x2000 \<le> c \<and> c \<le> 0x200A) \<or> c = 0x2028 \<or> c = 0x2029
      \<or> c = 0x202F \<or> c = 0x205F \<or> c = 0x3000 \<or> c = 0xFEFF)"

text \<open>\<open>s.trim()\<close>: white space removed at both ends.\<close>

definition trim :: "jsstring \<Rightarrow> jsstring" where
  "trim s = rev (dropWhile isWhiteSpace (rev (dropWhile isWhiteSpace s)))"

text \<open>
  \<open>s.split(sep)\<close> for a separator of one code unit: the pieces between the
  occurrences of the separator, empty pieces included; the empty string gives one
  empty piece.
\<close>

fun split :: "code_unit \<Rightarrow> jsstring \<Rightarrow> jsstring list" where
  "split sep [] = [[]]"
| "split sep (c # cs) =
     (if c = sep then [] # split sep cs
      else (case split sep cs of
              [] \<Rightarrow> [[c]]
            | w # ws \<Rightarrow> (c # w) # ws))"

section \<open>Regular expressions\<close>

text \<open>
  The validity check is a regular expression literal applied with \<open>test\<close>. The literal
  is kept as a term; \<open>test\<close> succeeds when some substring of the input is matched,
  which is what the backtracking matcher of the language decides for a pattern without
  anchors, look-around or back-references.
\<close>

datatype regex =
    Never
  | Empty
  | Atom "code_unit \<Rightarrow> bool"
  | Alt regex regex
  | Seq regex regex
  | Star regex

fun nullable :: "regex \<Rightarrow> bool" where
  "nullable Never = False"
| "nullable Empty = True"
| "nullable (Atom p) = False"
| "nullable (Alt r s) = (nullable r \<or> nullable s)"
| "nullable (Seq r s) = (nullable r \<and> nullable s)"
| "nullable (Star r) = True"

fun deriv :: "code_unit \<Rightarrow> regex \<Rightarrow> regex" where
  "deriv c Never = Never"
| "deriv c Empty = Never"
| "deriv c (Atom p) = (if p c then Empty else Never)"
| "deriv c (Alt r s) = Alt (deriv c r) (deriv c s)"
| "deriv c (Seq r s) =
     (if nullable r then Alt (Seq (deriv c r) s) (deriv c s) else Seq (deriv c r) s)"
| "deriv c (Star r) = Seq (deriv c r) (Star r)"

text \<open>\<open>matchPrefix r s\<close>: the pattern matches at the start of \<open>s\<close>.\<close>

fun matchPrefix :: "regex \<Rightarrow> jsstring \<Rightarrow> bool" where
  "matchPrefix r [] = nullable r"
| "matchPrefix r (c # cs) = (nullable r \<or> matchPrefix (deriv c r) cs)"

text \<open>\<open>test r s\<close>: the pattern matches at some index of \<open>s\<close>, tried from index 0 on.\<close>

fun test :: "regex \<Rightarrow> jsstring \<Rightarrow> bool" where
  "test r [] = matchPrefix r []"
| "test r (c # cs) = (matchPrefix r (c # cs) \<or> test r cs)"

text \<open>
  Under the \<open>i\<close> flag (without \<open>u\<close>) a pattern character matches an input code unit
  when both have the same canonical form. For an ASCII pattern character that means:
  equal up to the case of an ASCII letter; a code unit from 128 on is never
  canonicalised to an ASCII one.
\<close>

definition asciiUpper :: "code_unit \<Rightarrow> code_unit" where
  "asciiUpper c = (if 0x61 \<le> c \<and> c \<le> 0x7A then c - 0x20 else c)"

definition ignoreCase :: "code_unit \<Rightarrow> regex" where
  "ignoreCase c = Atom (\<lambda>x. asciiUpper x = asciiUpper c)"

fun literal :: "jsstring \<Rightarrow> regex" where
  "literal [] = Empty"
| "literal (c # cs) = Seq (ignoreCase c) (literal cs)"

section \<open>The validity check\<close>

text \<open>
  \<^verbatim>\<open>const isValidSvg = (code: string): boolean => {
    return /<svg[^>]*>[\s\S]*<\/svg>/i.test(code);
  };\<close>
\<close>

definition svgPattern :: regex where
  "svgPattern =
     Seq (literal (ascii ''<svg''))
       (Seq (Star (Atom (\<lambda>x. x \<noteq> 0x3E)))
         (Seq (ignoreCase 0x3E)
           (Seq (Star (Atom (\<lambda>x. isWhiteSpace x \<or> \<not> isWhiteSpace x)))
             (literal (ascii ''</svg>'')))))"

definition isValidSvg :: "jsstring \<Rightarrow> bool" where
  "isValidSvg code = test svgPattern code"


section \<open>Numbers and the built-in conversions\<close>

text \<open>
  A number of the language is \<open>NaN\<close>, an infinity or a finite value. \<open>!n\<close> holds for
  \<open>NaN\<close> and for zero of either sign; \<open>Num 0\<close> stands for both zeros.
\<close>

datatype number = NaN | PosInfinity | NegInfinity | Num real

definition falsy :: "number \<Rightarrow> bool" where
  "falsy n = (n = NaN \<or> n = Num 0)"

text \<open>\<open>v || d\<close> for a string \<open>v\<close> that may be \<open>null\<close>: \<open>null\<close> and the empty string give \<open>d\<close>.\<close>

definition orString :: "jsstring option \<Rightarrow> jsstring \<Rightarrow> jsstring" where
  "orString v d = (case v of None \<Rightarrow> d | Some s \<Rightarrow> if s = [] then d else s)"

section \<open>The document object model\<close>

text \<open>
  An element carries its attributes in document order; what it contains, and what
  surrounds it in its document, is opaque to the component (type \<open>'x\<close>). A parsed
  document is seen through \<open>doc.querySelector('svg')\<close> only: \<open>svgElement\<close> is the element
  that call returns, \<open>None\<close> for \<open>null\<close>.
\<close>

record 'x element =
  attributes :: "(jsstring \<times> jsstring) list"
  content :: 'x

record 'x document =
  svgElement :: "'x element option"
  surroundings :: 'x

definition hasAttribute :: "'x element \<Rightarrow> jsstring \<Rightarrow> bool" where
  "hasAttribute el name = (map_of (attributes el) name \<noteq> None)"

definition getAttribute :: "'x element \<Rightarrow> jsstring \<Rightarrow> jsstring option" where
  "getAttribute el name = map_of (attributes el) name"

definition setAttribute :: "'x element \<Rightarrow> jsstring \<Rightarrow> jsstring \<Rightarrow> 'x element" where
  "setAttribute el name v = el\<lparr>attributes := AList.update name v (attributes el)\<rparr>"

datatype exception =
    ImageLoadFailed
  | CanvasContextUnavailable
  | PlatformError jsstring

text \<open>
  What the browser and the language provide. None of it is code of the component, so
  the component is modelled over any implementation of it:
  \<^item> \<open>parseFromString\<close>: \<open>new DOMParser().parseFromString(_, 'image/svg+xml')\<close>;
  \<^item> \<open>serializeToString\<close>, \<open>serializeElement\<close>: \<open>new XMLSerializer().serializeToString\<close>
    of a document and of an element;
  \<^item> \<open>parseInt\<close>, \<open>Number\<close>, \<open>toString\<close>: the conversions between strings and numbers;
  \<^item> \<open>base64\<close>: \<open>btoa(unescape(encodeURIComponent(_)))\<close>, which can throw;
  \<^item> \<open>imageLoads\<close>: whether an \<open>img\<close> given this source fires \<open>load\<close> (else \<open>error\<close>);
  \<^item> \<open>context2d\<close>: whether \<open>canvas.getContext('2d')\<close> returns a context (else \<open>null\<close>).
\<close>

record 'x browser =
  parseFromString :: "jsstring \<Rightarrow> 'x document"
  serializeToString :: "'x document \<Rightarrow> jsstring"
  serializeElement :: "'x element \<Rightarrow> jsstring"
  parseInt :: "jsstring \<Rightarrow> number"
  Number :: "jsstring \<Rightarrow> number"
  toString :: "number \<Rightarrow> jsstring"
  base64 :: "jsstring \<Rightarrow> exception + jsstring"
  imageLoads :: "jsstring \<Rightarrow> bool"
  context2d :: bool

section \<open>Component state and effects\<close>

text \<open>
  The state hooks of \<open>SVGViewer\<close>, and \<open>view\<close> for \<open>viewRef.current\<close>: the text held by
  the editor widget, \<open>None\<close> while there is no widget.
\<close>

record state =
  svgCode :: jsstring
  fileName :: jsstring
  scale :: real
  position :: "real \<times> real"
  isDragging :: bool
  dragStart :: "real \<times> real"
  previewSvgCode :: jsstring
  view :: "jsstring option"

datatype format = Png | Jpeg | Svg

text \<open>The notification texts of the source, one constructor per text.\<close>

datatype message =
    PasteImported
  | PasteNotSvg
  | PasteReadFailed
  | NoSvgToExport
  | InvalidSvgCode
  | ExportedAs format
  | ExportFailed
  | NoSvgToDownload
  | SvgDownloaded
  | NoSvgToCopy
  | SvgCopied
  | CopyFailed
  | SvgCleared

datatype level = Success | Error | Info

text \<open>
  The canvas an export draws: its size in pixels, the white rectangle filled first and
  the image drawn over it (source, then the width and height it is drawn at). The size
  is a pair of unsigned integers, as \<open>canvas.width\<close> and \<open>canvas.height\<close> are; the
  rectangle and the drawing take any number.
\<close>

record canvas =
  canvasWidth :: nat
  canvasHeight :: nat
  fillRect :: "number \<times> number"
  drawImage :: "jsstring \<times> number \<times> number"

text \<open>
  What \<open>saveAs\<close> is given: a blob with its content and type, or
  \<open>canvas.toDataURL(type, quality)\<close> of a canvas.
\<close>

datatype payload =
    Blob jsstring string
  | CanvasDataURL canvas string "real option"

datatype effect =
    Toast level message
  | ConsoleError
  | SaveAs payload jsstring
  | ClipboardWrite jsstring

definition toasts :: "effect list \<Rightarrow> (level \<times> message) list" where
  "toasts es = concat (map (\<lambda>e. case e of Toast l m \<Rightarrow> [(l, m)] | _ \<Rightarrow> []) es)"

section \<open>Dimension inference for the preview\<close>

text \<open>\<open>svgElement.getAttribute('viewBox')?.split(' ').map(Number)\<close>\<close>

definition viewBoxNumbers :: "'x browser \<Rightarrow> 'x element \<Rightarrow> number list option" where
  "viewBoxNumbers b el =
     map_option (\<lambda>v. map (Number b) (split 0x20 v)) (getAttribute el (ascii ''viewBox''))"

text \<open>\<open>if (!el.hasAttribute(name)) el.setAttribute(name, v)\<close>\<close>

definition setIfMissing :: "'x element \<Rightarrow> jsstring \<Rightarrow> jsstring \<Rightarrow> 'x element" where
  "setIfMissing el name v = (if \<not> hasAttribute el name then setAttribute el name v else el)"

text \<open>Lines 60 to 71 of \<open>ensureSvgDimensions\<close>: width and height from the \<open>viewBox\<close>.\<close>

definition dimensionsFromViewBox :: "'x browser \<Rightarrow> 'x element \<Rightarrow> 'x element" where
  "dimensionsFromViewBox b el =
     (if (\<not> hasAttribute el (ascii ''width'') \<or> \<not> hasAttribute el (ascii ''height''))
         \<and> hasAttribute el (ascii ''viewBox'')
      then (case viewBoxNumbers b el of
              None \<Rightarrow> el
            | Some viewBox \<Rightarrow>
                if length viewBox = 4
                then setIfMissing
                       (setIfMissing el (ascii ''width'') (toString b (viewBox ! 2)))
                       (ascii ''height'') (toString b (viewBox ! 3))
                else el)
      else el)"

text \<open>Lines 73 to 79: the defaults for what is still missing.\<close>

definition defaultDimensions :: "'x element \<Rightarrow> 'x element" where
  "defaultDimensions el =
     setIfMissing (setIfMissing el (ascii ''width'') (ascii ''300''))
       (ascii ''height'') (ascii ''300'')"

definition ensureSvgDimensions :: "'x browser \<Rightarrow> jsstring \<Rightarrow> jsstring" where
  "ensureSvgDimensions b code =
     (if code = [] \<or> \<not> isValidSvg code then code
      else (let doc = parseFromString b code in
            case svgElement doc of
              None \<Rightarrow> code
            | Some el \<Rightarrow>
                serializeToString b
                  (doc\<lparr>svgElement := Some (defaultDimensions (dimensionsFromViewBox b el))\<rparr>)))"

section \<open>Export\<close>

text \<open>
  Lines 145 to 161 of \<open>exportAsImage\<close>: the size of the canvas. The attributes are
  read with \<open>parseInt\<close>; when either is \<open>NaN\<close> or zero both are replaced by the third
  and fourth \<open>viewBox\<close> numbers; when either still is, the size is 800 by 600.
\<close>

definition exportDimensions :: "'x browser \<Rightarrow> 'x element \<Rightarrow> number \<times> number" where
  "exportDimensions b el =
     (let width = parseInt b (orString (getAttribute el (ascii ''width'')) (ascii ''0''));
          height = parseInt b (orString (getAttribute el (ascii ''height'')) (ascii ''0''));
          (width, height) =
            (if falsy width \<or> falsy height
             then (case viewBoxNumbers b el of
                     None \<Rightarrow> (width, height)
                   | Some viewBox \<Rightarrow>
                       if length viewBox = 4 then (viewBox ! 2, viewBox ! 3)
                       else (width, height))
             else (width, height))
      in if falsy width \<or> falsy height then (Num 800, Num 600) else (width, height))"

text \<open>Lines 167 to 200: the data URL of the resized element and the canvas drawn from it.\<close>

definition sizedElement :: "'x browser \<Rightarrow> 'x element \<Rightarrow> 'x element" where
  "sizedElement b el =
     (let (width, height) = exportDimensions b el
      in setAttribute (setAttribute el (ascii ''width'') (toString b width))
           (ascii ''height'') (toString b height))"

text \<open>
  \<open>canvas.width = n\<close> (lines 187 and 188): the attribute is an \<open>unsigned long\<close>. The
  number is converted as every such argument is: \<open>NaN\<close> and the infinities give 0, any
  other number is cut to its integer part and taken modulo \<open>2 ^ 32\<close>. The canvas then takes
  the result when it is at most 2147483647, and its default size otherwise. The default
  is 300 for the width and 150 for the height.
\<close>

definition toUnsignedLong :: "number \<Rightarrow> nat" where
  "toUnsignedLong n =
     (case n of
        Num r \<Rightarrow> nat ((if r < 0 then - \<lfloor>- r\<rfloor> else \<lfloor>r\<rfloor>) mod 4294967296)
      | _ \<Rightarrow> 0)"

definition canvasSize :: "nat \<Rightarrow> number \<Rightarrow> nat" where
  "canvasSize dflt n =
     (if toUnsignedLong n \<le> 2147483647 then toUnsignedLong n else dflt)"

definition drawCanvas :: "jsstring \<Rightarrow> number \<times> number \<Rightarrow> canvas" where
  "drawCanvas src dims =
     \<lparr>canvasWidth = canvasSize 300 (fst dims), canvasHeight = canvasSize 150 (snd dims),
      fillRect = dims, drawImage = (src, fst dims, snd dims)\<rparr>"

text \<open>Lines 203 to 215: what is saved, and under which name, for each format.\<close>

definition saveFormat :: "state \<Rightarrow> canvas \<Rightarrow> format \<Rightarrow> effect" where
  "saveFormat st cv format =
     (case format of
        Png \<Rightarrow> SaveAs (CanvasDataURL cv ''image/png'' None) (fileName st @ ascii ''.png'')
      | Jpeg \<Rightarrow>
          SaveAs (CanvasDataURL cv ''image/jpeg'' (Some 0.95)) (fileName st @ ascii ''.jpg'')
      | Svg \<Rightarrow>
          SaveAs (Blob (svgCode st) ''image/svg+xml;charset=utf-8'')
            (fileName st @ ascii ''.svg''))"

text \<open>
  The \<open>try\<close> block of \<open>exportAsImage\<close> (lines 134 to 217). \<open>Inr\<close> is its effects when it
  completes or returns early. \<open>Inl\<close> is an exception thrown in the block, with the effects
  that came before it: an image that does not load is logged by its \<open>onerror\<close> handler
  (line 179) before the promise is rejected; the other two throw with nothing done.
\<close>

definition exportTry ::
  "'x browser \<Rightarrow> state \<Rightarrow> format \<Rightarrow> effect list \<times> exception + effect list" where
  "exportTry b st format =
     (case svgElement (parseFromString b (svgCode st)) of
        None \<Rightarrow> Inr [Toast Error InvalidSvgCode]
      | Some el \<Rightarrow>
          (case base64 b (serializeElement b (sizedElement b el)) of
             Inl e \<Rightarrow> Inl ([], e)
           | Inr svgBase64 \<Rightarrow>
               (let dataUrl = ascii ''data:image/svg+xml;base64,'' @ svgBase64 in
                if \<not> imageLoads b dataUrl then Inl ([ConsoleError], ImageLoadFailed)
                else if \<not> context2d b then Inl ([], CanvasContextUnavailable)
                else Inr [saveFormat st (drawCanvas dataUrl (exportDimensions b el)) format,
                          Toast Success (ExportedAs format)])))"

text \<open>
  A handler returns \<open>Inr\<close> of the new state and its effects when it returns normally,
  \<open>Inl\<close> when an exception leaves it.
\<close>

type_synonym outcome = "exception + state \<times> effect list"

text \<open>
  \<open>exportAsImage\<close>: the guard of lines 128 to 131, then the \<open>try\<close> block; its \<open>catch\<close>
  (lines 219 and 220) logs the exception and shows the notification.
\<close>

definition exportAsImage :: "'x browser \<Rightarrow> state \<Rightarrow> format \<Rightarrow> outcome" where
  "exportAsImage b st format =
     (if svgCode st = [] then Inr (st, [Toast Error NoSvgToExport])
      else (case exportTry b st format of
              Inr es \<Rightarrow> Inr (st, es)
            | Inl (es, error) \<Rightarrow> Inr (st, es @ [ConsoleError, Toast Error ExportFailed])))"

definition downloadSvgCode :: "state \<Rightarrow> outcome" where
  "downloadSvgCode st =
     (if trim (svgCode st) = [] then Inr (st, [Toast Error NoSvgToDownload])
      else Inr (st, [SaveAs (Blob (svgCode st) ''text/plain;charset=utf-8'')
                       (fileName st @ ascii ''.svg''),
                     Toast Success SvgDownloaded]))"

section \<open>Clipboard\<close>

text \<open>
  \<open>readText\<close> is what \<open>await navigator.clipboard.readText()\<close> gives at this call: the
  text, or the exception it throws or rejects with.
\<close>

definition handlePasteFromClipboard :: "exception + jsstring \<Rightarrow> state \<Rightarrow> outcome" where
  "handlePasteFromClipboard readText st =
     (case readText of
        Inr clipboardText \<Rightarrow>
          if isValidSvg clipboardText
          then Inr (st\<lparr>svgCode := clipboardText\<rparr>, [Toast Success PasteImported])
          else Inr (st, [Toast Error PasteNotSvg])
      | Inl error \<Rightarrow> Inr (st, [ConsoleError, Toast Error PasteReadFailed]))"

text \<open>
  \<open>writeText\<close> is what \<open>await navigator.clipboard.writeText(svgCode)\<close> does at this
  call: \<open>None\<close> when it succeeds, the exception otherwise.
\<close>

definition copySvgCode :: "exception option \<Rightarrow> state \<Rightarrow> outcome" where
  "copySvgCode writeText st =
     (if trim (svgCode st) = [] then Inr (st, [Toast Error NoSvgToCopy])
      else (case writeText of
              None \<Rightarrow> Inr (st, [ClipboardWrite (svgCode st), Toast Success SvgCopied])
            | Some error \<Rightarrow> Inr (st, [ConsoleError, Toast Error CopyFailed])))"

section \<open>Zoom\<close>

definition handleScaleChange :: "real \<Rightarrow> state \<Rightarrow> state" where
  "handleScaleChange v st = st\<lparr>scale := v\<rparr>"

definition zoomIn :: "state \<Rightarrow> state" where
  "zoomIn st = st\<lparr>scale := min (scale st + 0.1) 3\<rparr>"

definition zoomOut :: "state \<Rightarrow> state" where
  "zoomOut st = st\<lparr>scale := max (scale st - 0.1) 0.1\<rparr>"

definition resetPosition :: "state \<Rightarrow> state" where
  "resetPosition st = st\<lparr>position := (0, 0)\<rparr>"

text \<open>The \<open>onChange\<close> of the range input (lines 417 to 420).\<close>

definition sliderChange :: "real \<Rightarrow> state \<Rightarrow> state" where
  "sliderChange v st = resetPosition (handleScaleChange v st)"

section \<open>Editor, preview and buttons\<close>

definition clearSvgCode :: "state \<Rightarrow> state \<times> effect list" where
  "clearSvgCode st = (st\<lparr>svgCode := []\<rparr>, [Toast Info SvgCleared])"

definition handleFileNameChange :: "jsstring \<Rightarrow> state \<Rightarrow> state" where
  "handleFileNameChange v st = st\<lparr>fileName := v\<rparr>"

text \<open>
  The update listener of the editor (lines 308 to 314), run for a transaction that
  leaves the editor holding \<open>newSvgCode\<close>.
\<close>

definition updateListener :: "'x browser \<Rightarrow> jsstring \<Rightarrow> state \<Rightarrow> state" where
  "updateListener b newSvgCode st =
     st\<lparr>view := Some newSvgCode, svgCode := newSvgCode,
        previewSvgCode := ensureSvgDimensions b newSvgCode\<rparr>"

text \<open>
  The effect that follows a change of \<open>svgCode\<close> (lines 331 to 340): an editor whose
  text differs is given the new text, which runs its update listener.
\<close>

definition syncEditor :: "'x browser \<Rightarrow> state \<Rightarrow> state" where
  "syncEditor b st =
     (case view st of
        None \<Rightarrow> st
      | Some currentContent \<Rightarrow>
          if currentContent \<noteq> svgCode st then updateListener b (svgCode st) st else st)"

text \<open>The state once the component is mounted: the hooks' initial values and the editor.\<close>

definition mount :: "jsstring \<Rightarrow> state" where
  "mount initialSvg =
     \<lparr>svgCode = initialSvg, fileName = ascii ''svg-preview'', scale = 1, position = (0, 0),
      isDragging = False, dragStart = (0, 0), previewSvgCode = [], view = Some initialSvg\<rparr>"

text \<open>What the preview pane shows (lines 429 to 443).\<close>

datatype preview = SvgContent jsstring real "real \<times> real" | Placeholder

definition renderPreview :: "state \<Rightarrow> preview" where
  "renderPreview st =
     (if previewSvgCode st \<noteq> [] then SvgContent (previewSvgCode st) (scale st) (position st)
      else Placeholder)"

text \<open>The \<open>disabled\<close> attribute of the four action buttons (lines 464 to 495).\<close>

datatype button = ExportPng | ExportJpeg | DownloadSvg | CopySvg

fun disabled :: "button \<Rightarrow> state \<Rightarrow> bool" where
  "disabled ExportPng st = (svgCode st = [] \<or> \<not> isValidSvg (svgCode st))"
| "disabled ExportJpeg st = (svgCode st = [] \<or> \<not> isValidSvg (svgCode st))"
| "disabled DownloadSvg st = (svgCode st = [])"
| "disabled CopySvg st = (svgCode st = [])"

text \<open>
  The states the mounted component reaches: each rule is one user action, followed by
  the editor effect where the action sets \<open>svgCode\<close>. The range input only reports
  values between its \<open>min\<close> and \<open>max\<close>, read with \<open>parseFloat\<close>. An upload sets the
  file name at once (rule \<open>renamed\<close>) and the text when the file is read (rule
  \<open>uploaded\<close>). The handlers that nothing in the rendered tree invokes
  (\<open>handleSvgChange\<close>, \<open>handleClear\<close>, \<open>handleDownload\<close>, \<open>updatePreview\<close>) have no rule.
\<close>

inductive reachable :: "'x browser \<Rightarrow> state \<Rightarrow> bool" for b :: "'x browser" where
  mounted: "reachable b (mount initialSvg)"
| edited: "reachable b st \<Longrightarrow> reachable b (updateListener b text st)"
| pasted: "reachable b st \<Longrightarrow> handlePasteFromClipboard readText st = Inr (st', es)
     \<Longrightarrow> reachable b (syncEditor b st')"
| uploaded: "reachable b st \<Longrightarrow> reachable b (syncEditor b (st\<lparr>svgCode := text\<rparr>))"
| cleared: "reachable b st \<Longrightarrow> reachable b (syncEditor b (fst (clearSvgCode st)))"
| renamed: "reachable b st \<Longrightarrow> reachable b (handleFileNameChange v st)"
| zoomedIn: "reachable b st \<Longrightarrow> reachable b (zoomIn st)"
| zoomedOut: "reachable b st \<Longrightarrow> reachable b (zoomOut st)"
| slid: "reachable b st \<Longrightarrow> 0.1 \<le> v \<Longrightarrow> v \<le> 3 \<Longrightarrow> reachable b (sliderChange v st)"

text \<open>
  What holds between the actions: the editor holds \<open>svgCode\<close>, and the preview string is
  either still empty or the normalised \<open>svgCode\<close>.
\<close>

definition synced :: "'x browser \<Rightarrow> state \<Rightarrow> bool" where
  "synced b st =
     (view st = Some (svgCode st)
      \<and> (previewSvgCode st = [] \<or> previewSvgCode st = ensureSvgDimensions b (svgCode st)))"

section \<open>What the validity check is meant to decide\<close>

text \<open>
  The words of the specification: the text contains, in any letter case, an opening tag
  \<open><svg...>\<close> and, somewhere after it, a closing tag \<open></svg>\<close>.
\<close>

definition isOpeningTag :: "jsstring \<Rightarrow> bool" where
  "isOpeningTag t =
     (\<exists>s v g rest. t = [0x3C, s, v, g] @ rest @ [0x3E]
        \<and> s \<in> {0x73, 0x53} \<and> v \<in> {0x76, 0x56} \<and> g \<in> {0x67, 0x47} \<and> 0x3E \<notin> set rest)"

definition isClosingTag :: "jsstring \<Rightarrow> bool" where
  "isClosingTag t =
     (\<exists>s v g. t = [0x3C, 0x2F, s, v, g, 0x3E]
        \<and> s \<in> {0x73, 0x53} \<and> v \<in> {0x76, 0x56} \<and> g \<in> {0x67, 0x47})"

definition hasSvgTags :: "jsstring \<Rightarrow> bool" where
  "hasSvgTags code =
     (\<exists>before opening between closing after.
        code = before @ opening @ between @ closing @ after
        \<and> isOpeningTag opening \<and> isClosingTag closing)"

text \<open>The strings a regular expression matches, for the proofs about \<open>test\<close>.\<close>

inductive_set star :: "jsstring set \<Rightarrow> jsstring set" for A :: "jsstring set" where
  star_nil: "[] \<in> star A"
| star_app: "u \<in> A \<Longrightarrow> v \<in> star A \<Longrightarrow> u @ v \<in> star A"

fun lang :: "regex \<Rightarrow> jsstring set" where
  "lang Never = {}"
| "lang Empty = {[]}"
| "lang (Atom p) = {[c] | c. p c}"
| "lang (Alt r s) = lang r \<union> lang s"
| "lang (Seq r s) = {u @ v | u v. u \<in> lang r \<and> v \<in> lang s}"
| "lang (Star r) = star (lang r)"

section \<open>A browser to run the component on\<close>

text \<open>
  The examples below run the component on this browser. Its parser finds the given
  element in whatever it parses; its serialiser lists the attributes; its conversions
  read and print the unsigned decimal numerals the examples use, on which they agree with
  the language; encoding, image loading and the canvas context succeed unless a field is
  overridden. \<open>printNumber\<close> also prints the two fractions of the example that has them.
\<close>

fun decimal :: "nat \<Rightarrow> jsstring \<Rightarrow> nat option" where
  "decimal acc [] = Some acc"
| "decimal acc (c # cs) =
     (if 0x30 \<le> c \<and> c \<le> 0x39 then decimal (10 * acc + unat (c - 0x30)) cs else None)"

definition readDecimal :: "number \<Rightarrow> jsstring \<Rightarrow> number" where
  "readDecimal whenEmpty s =
     (if s = [] then whenEmpty
      else (case decimal 0 s of None \<Rightarrow> NaN | Some n \<Rightarrow> Num (real n)))"

definition printNumber :: "number \<Rightarrow> jsstring" where
  "printNumber n =
     (if n = Num 0 then ascii ''0''
      else if n = Num 24 then ascii ''24''
      else if n = Num 24.5 then ascii ''24.5''
      else if n = Num 48 then ascii ''48''
      else if n = Num 48.5 then ascii ''48.5''
      else if n = Num 100 then ascii ''100''
      else if n = Num 600 then ascii ''600''
      else if n = Num 800 then ascii ''800''
      else ascii ''NaN'')"

text \<open>\<open>Number\<close> for the examples with a fraction: it also reads \<open>24.5\<close> and \<open>48.5\<close>.\<close>

definition readFraction :: "jsstring \<Rightarrow> number" where
  "readFraction s =
     (if s = ascii ''24.5'' then Num 24.5
      else if s = ascii ''48.5'' then Num 48.5
      else readDecimal (Num 0) s)"

definition listAttributes :: "unit element \<Rightarrow> jsstring" where
  "listAttributes el =
     concat (map (\<lambda>(name, v). ascii '' '' @ name @ ascii ''='' @ v) (attributes el))"

definition sampleBrowser :: "unit element option \<Rightarrow> unit browser" where
  "sampleBrowser found =
     \<lparr>parseFromString = (\<lambda>text. \<lparr>svgElement = found, surroundings = ()\<rparr>),
      serializeToString = (\<lambda>doc. case svgElement doc of None \<Rightarrow> [] | Some el \<Rightarrow> listAttributes el),
      serializeElement = listAttributes,
      parseInt = readDecimal NaN,
      Number = readDecimal (Num 0),
      toString = printNumber,
      base64 = Inr,
      imageLoads = (\<lambda>src. True),
      context2d = True\<rparr>"

definition svg :: "(string \<times> string) list \<Rightarrow> unit element" where
  "svg attrs = \<lparr>attributes = map (\<lambda>(name, v). (ascii name, ascii v)) attrs, content = ()\<rparr>"

text \<open>A string constant between double quotes, for attribute values in a text.\<close>

definition quoted :: "string \<Rightarrow> jsstring" where
  "quoted s = 0x22 # ascii s @ [0x22]"

text \<open>The text of an \<open>svg\<close> element with these attributes: with a closing tag, and self-closing.\<close>

definition openTag :: "(string \<times> string) list \<Rightarrow> jsstring" where
  "openTag attrs =
     ascii ''<svg'' @ concat (map (\<lambda>(name, v). ascii '' '' @ ascii name @ ascii ''='' @ quoted v) attrs)"

definition markup :: "(string \<times> string) list \<Rightarrow> jsstring" where
  "markup attrs = openTag attrs @ ascii ''></svg>''"

definition selfClosing :: "(string \<times> string) list \<Rightarrow> jsstring" where
  "selfClosing attrs = openTag attrs @ ascii ''/>''"

text \<open>Removing an attribute, to compare an element with the one lacking it.\<close>

definition removeAttribute :: "'x element \<Rightarrow> jsstring \<Rightarrow> 'x element" where
  "removeAttribute el name = el\<lparr>attributes := AList.delete name (attributes el)\<rparr>"

section \<open>The validity check decides the presence of the two tags\<close>

lemma nullable_iff: "nullable r \<longleftrightarrow> [] \<in> lang r"
  by (induction r) (auto intro: star.intros)

lemma star_cons_iff:
  "c # w \<in> star A \<longleftrightarrow> (\<exists>u v. w = u @ v \<and> c # u \<in> A \<and> v \<in> star A)"
proof
  assume "c # w \<in> star A"
  then show "\<exists>u v. w = u @ v \<and> c # u \<in> A \<and> v \<in> star A"
  proof (induction "c # w" arbitrary: rule: star.induct)
    case (star_app u v)
    show ?case
    proof (cases u)
      case Nil
      with star_app show ?thesis by simp
    next
      case (Cons a u')
      with star_app show ?thesis by auto
    qed
  qed
next
  assume "\<exists>u v. w = u @ v \<and> c # u \<in> A \<and> v \<in> star A"
  then obtain u v where "w = u @ v" "c # u \<in> A" "v \<in> star A" by blast
  then have "(c # u) @ v \<in> star A" by (intro star.star_app)
  with \<open>w = u @ v\<close> show "c # w \<in> star A" by simp
qed

lemma deriv_iff: "w \<in> lang (deriv c r) \<longleftrightarrow> c # w \<in> lang r"
proof (induction r arbitrary: w)
  case (Seq r s)
  then show ?case
    by (auto simp: nullable_iff Cons_eq_append_conv)
next
  case (Star r)
  then show ?case by (auto simp: star_cons_iff)
qed auto

lemma matchPrefix_iff: "matchPrefix r s \<longleftrightarrow> (\<exists>u v. s = u @ v \<and> u \<in> lang r)"
proof (induction s arbitrary: r)
  case Nil
  then show ?case by (simp add: nullable_iff)
next
  case (Cons c cs)
  show ?case
    by (auto simp: Cons nullable_iff deriv_iff Cons_eq_append_conv)
qed

lemma test_iff: "test r s \<longleftrightarrow> (\<exists>a u v. s = a @ u @ v \<and> u \<in> lang r)"
proof (induction s)
  case Nil
  then show ?case by (simp add: nullable_iff)
next
  case (Cons c cs)
  note IH = Cons.IH
  show ?case
  proof
    assume "test r (c # cs)"
    then consider "matchPrefix r (c # cs)" | "test r cs" by auto
    then show "\<exists>a u v. c # cs = a @ u @ v \<and> u \<in> lang r"
    proof cases
      case 1
      then obtain u v where "c # cs = u @ v" "u \<in> lang r"
        unfolding matchPrefix_iff by blast
      then have "c # cs = [] @ u @ v \<and> u \<in> lang r" by simp
      then show ?thesis by blast
    next
      case 2
      then obtain a u v where "cs = a @ u @ v" "u \<in> lang r"
        unfolding IH by blast
      then have "c # cs = (c # a) @ u @ v \<and> u \<in> lang r" by simp
      then show ?thesis by blast
    qed
  next
    assume "\<exists>a u v. c # cs = a @ u @ v \<and> u \<in> lang r"
    then obtain a u v where eq: "c # cs = a @ u @ v" and u: "u \<in> lang r" by blast
    show "test r (c # cs)"
    proof (cases a)
      case Nil
      with eq u have "matchPrefix r (c # cs)"
        unfolding matchPrefix_iff by auto
      then show ?thesis by simp
    next
      case (Cons x a')
      with eq have "cs = a' @ u @ v" by simp
      with u have "test r cs" unfolding IH by blast
      then show ?thesis by simp
    qed
  qed
qed

lemma star_atom: "star (lang (Atom p)) = {w. \<forall>x \<in> set w. p x}"
proof (rule set_eqI, rule iffI)
  fix w assume "w \<in> star (lang (Atom p))"
  then show "w \<in> {w. \<forall>x \<in> set w. p x}"
    by (induction rule: star.induct) auto
next
  fix w assume "w \<in> {w. \<forall>x \<in> set w. p x}"
  then have "\<forall>x \<in> set w. p x" by simp
  then show "w \<in> star (lang (Atom p))"
  proof (induction w)
    case Nil
    show ?case by (rule star.star_nil)
  next
    case (Cons x w)
    then have "[x] \<in> lang (Atom p)" and "w \<in> star (lang (Atom p))" by auto
    then have "[x] @ w \<in> star (lang (Atom p))" by (rule star.star_app)
    then show ?case by simp
  qed
qed

lemma upper_lt: "asciiUpper x = asciiUpper 0x3C \<longleftrightarrow> x = 0x3C"
  by (auto simp: asciiUpper_def diff_eq_eq)

lemma upper_gt: "asciiUpper x = asciiUpper 0x3E \<longleftrightarrow> x = 0x3E"
  by (auto simp: asciiUpper_def diff_eq_eq)

lemma upper_slash: "asciiUpper x = asciiUpper 0x2F \<longleftrightarrow> x = 0x2F"
  by (auto simp: asciiUpper_def diff_eq_eq)

lemma upper_s: "asciiUpper x = asciiUpper 0x73 \<longleftrightarrow> x \<in> {0x73, 0x53}"
  by (auto simp: asciiUpper_def diff_eq_eq)

lemma upper_v: "asciiUpper x = asciiUpper 0x76 \<longleftrightarrow> x \<in> {0x76, 0x56}"
  by (auto simp: asciiUpper_def diff_eq_eq)

lemma upper_g: "asciiUpper x = asciiUpper 0x67 \<longleftrightarrow> x \<in> {0x67, 0x47}"
  by (auto simp: asciiUpper_def diff_eq_eq)

lemmas upper_simps = upper_lt upper_gt upper_slash upper_s upper_v upper_g

lemma in_lang_Seq: "w \<in> lang (Seq r s) \<longleftrightarrow> (\<exists>u v. w = u @ v \<and> u \<in> lang r \<and> v \<in> lang s)"
  by auto

lemma in_lang_Seq_Atom:
  "w \<in> lang (Seq (Atom p) r) \<longleftrightarrow> (\<exists>c t. w = c # t \<and> p c \<and> t \<in> lang r)"
proof
  assume "w \<in> lang (Seq (Atom p) r)"
  then show "\<exists>c t. w = c # t \<and> p c \<and> t \<in> lang r" by auto
next
  assume "\<exists>c t. w = c # t \<and> p c \<and> t \<in> lang r"
  then obtain c t where w: "w = c # t" and c: "p c" and t: "t \<in> lang r" by blast
  from w have "w = [c] @ t" by simp
  moreover from c have "[c] \<in> lang (Atom p)" by simp
  ultimately show "w \<in> lang (Seq (Atom p) r)"
    unfolding in_lang_Seq using t by blast
qed

lemma in_lang_open:
  "w \<in> lang (literal (ascii ''<svg'')) \<longleftrightarrow>
     (\<exists>s v g. w = [0x3C, s, v, g] \<and> s \<in> {0x73, 0x53} \<and> v \<in> {0x76, 0x56} \<and> g \<in> {0x67, 0x47})"
  by (simp add: ascii_def ignoreCase_def in_lang_Seq_Atom upper_simps del: lang.simps(5)) blast

lemma in_lang_close:
  "w \<in> lang (literal (ascii ''</svg>'')) \<longleftrightarrow>
     (\<exists>s v g. w = [0x3C, 0x2F, s, v, g, 0x3E]
        \<and> s \<in> {0x73, 0x53} \<and> v \<in> {0x76, 0x56} \<and> g \<in> {0x67, 0x47})"
  by (simp add: ascii_def ignoreCase_def in_lang_Seq_Atom upper_simps del: lang.simps(5)) blast

lemma lang_svgPattern:
  "u \<in> lang svgPattern \<longleftrightarrow>
     (\<exists>opening between closing. u = opening @ between @ closing
        \<and> isOpeningTag opening \<and> isClosingTag closing)"
proof -
  have tail: "\<And>w. w \<in> lang (Seq (Star (Atom (\<lambda>x. isWhiteSpace x \<or> \<not> isWhiteSpace x)))
                  (literal (ascii ''</svg>''))) \<longleftrightarrow>
      (\<exists>between closing. w = between @ closing \<and> isClosingTag closing)"
    unfolding in_lang_Seq lang.simps(6) star_atom in_lang_close isClosingTag_def by simp
  have gt: "\<And>w. w \<in> lang (Seq (ignoreCase 0x3E)
        (Seq (Star (Atom (\<lambda>x. isWhiteSpace x \<or> \<not> isWhiteSpace x))) (literal (ascii ''</svg>'')))) \<longleftrightarrow>
      (\<exists>between closing. w = 0x3E # between @ closing \<and> isClosingTag closing)"
    unfolding ignoreCase_def in_lang_Seq_Atom tail upper_gt by auto
  have attrs: "\<And>w. w \<in> lang (Seq (Star (Atom (\<lambda>x. x \<noteq> 0x3E))) (Seq (ignoreCase 0x3E)
        (Seq (Star (Atom (\<lambda>x. isWhiteSpace x \<or> \<not> isWhiteSpace x))) (literal (ascii ''</svg>''))))) \<longleftrightarrow>
      (\<exists>rest between closing. w = rest @ 0x3E # between @ closing \<and> 0x3E \<notin> set rest
          \<and> isClosingTag closing)"
    unfolding in_lang_Seq[of _ "Star _"] lang.simps(6) star_atom gt by auto
  show ?thesis
  proof
    assume "u \<in> lang svgPattern"
    then obtain p w where "u = p @ w" and p: "p \<in> lang (literal (ascii ''<svg''))"
      and "w \<in> lang (Seq (Star (Atom (\<lambda>x. x \<noteq> 0x3E))) (Seq (ignoreCase 0x3E)
        (Seq (Star (Atom (\<lambda>x. isWhiteSpace x \<or> \<not> isWhiteSpace x))) (literal (ascii ''</svg>'')))))"
      unfolding svgPattern_def in_lang_Seq[of _ "literal _"] by blast
    then obtain rest mid ctag where
      u: "u = p @ rest @ 0x3E # mid @ ctag" and rest: "0x3E \<notin> set rest"
      and ctag: "isClosingTag ctag"
      unfolding attrs by blast
    from p rest have "isOpeningTag (p @ rest @ [0x3E])"
      unfolding in_lang_open isOpeningTag_def by auto
    moreover have "u = (p @ rest @ [0x3E]) @ mid @ ctag" using u by simp
    ultimately show "\<exists>opening between closing. u = opening @ between @ closing
        \<and> isOpeningTag opening \<and> isClosingTag closing"
      using ctag by blast
  next
    assume "\<exists>opening between closing. u = opening @ between @ closing
        \<and> isOpeningTag opening \<and> isClosingTag closing"
    then obtain otag mid ctag where
      u: "u = otag @ mid @ ctag" and "isOpeningTag otag"
      and ctag: "isClosingTag ctag" by blast
    then obtain s v g rest where otag: "otag = [0x3C, s, v, g] @ rest @ [0x3E]"
      and svg: "s \<in> {0x73, 0x53}" "v \<in> {0x76, 0x56}" "g \<in> {0x67, 0x47}"
      and rest: "0x3E \<notin> set rest"
      unfolding isOpeningTag_def by blast
    from svg have p: "[0x3C, s, v, g] \<in> lang (literal (ascii ''<svg''))"
      unfolding in_lang_open by blast
    have "rest @ 0x3E # mid @ ctag \<in> lang (Seq (Star (Atom (\<lambda>x. x \<noteq> 0x3E))) (Seq (ignoreCase 0x3E)
        (Seq (Star (Atom (\<lambda>x. isWhiteSpace x \<or> \<not> isWhiteSpace x))) (literal (ascii ''</svg>'')))))"
      unfolding attrs using rest ctag by blast
    with p have "[0x3C, s, v, g] @ (rest @ 0x3E # mid @ ctag) \<in> lang svgPattern"
      unfolding svgPattern_def in_lang_Seq[of _ "literal _"] by blast
    then show "u \<in> lang svgPattern" using u otag by simp
  qed
qed

lemma isValidSvg_iff: "isValidSvg code \<longleftrightarrow> hasSvgTags code"
proof
  assume "isValidSvg code"
  then obtain a u v where code: "code = a @ u @ v" and "u \<in> lang svgPattern"
    unfolding isValidSvg_def test_iff by blast
  then obtain otag mid ctag where "u = otag @ mid @ ctag"
    and tags: "isOpeningTag otag" "isClosingTag ctag"
    unfolding lang_svgPattern by blast
  with code have "code = a @ otag @ mid @ ctag @ v" by simp
  with tags show "hasSvgTags code" unfolding hasSvgTags_def by blast
next
  assume "hasSvgTags code"
  then obtain a otag mid ctag v where code: "code = a @ otag @ mid @ ctag @ v"
    and tags: "isOpeningTag otag" "isClosingTag ctag"
    unfolding hasSvgTags_def by blast
  from tags have "otag @ mid @ ctag \<in> lang svgPattern"
    unfolding lang_svgPattern by blast
  moreover from code have "code = a @ (otag @ mid @ ctag) @ v" by simp
  ultimately show "isValidSvg code" unfolding isValidSvg_def test_iff by blast
qed

lemmas run_isValidSvg =
  isValidSvg_def svgPattern_def ascii_def ignoreCase_def asciiUpper_def isWhiteSpace_def

text \<open>
  C3: for every input string the validity check returns true if and only if the string
  contains, in any letter case, an opening tag \<open><svg...>\<close> followed somewhere later by a
  closing tag \<open></svg>\<close>.
\<close>

theorem isValidSvg_decides_tags: "isValidSvg code \<longleftrightarrow> hasSvgTags code"
  by (rule isValidSvg_iff)

theorem isValidSvg_decides_tags_witness:
  "isValidSvg (ascii ''<SVG a=1>x</sVg>'') \<and> hasSvgTags (ascii ''<SVG a=1>x</sVg>'')
   \<and> \<not> isValidSvg (ascii ''<svg/>'') \<and> \<not> hasSvgTags (ascii ''<svg/>'')"
  using isValidSvg_decides_tags [of "ascii ''<SVG a=1>x</sVg>''"]
    isValidSvg_decides_tags [of "ascii ''<svg/>''"]
  by (simp add: run_isValidSvg)

section \<open>Attributes and the two inference routines\<close>

lemma hasAttribute_iff: "hasAttribute el name \<longleftrightarrow> getAttribute el name \<noteq> None"
  by (simp add: hasAttribute_def getAttribute_def)

lemma getAttribute_setAttribute:
  "getAttribute (setAttribute el name v) name' =
     (if name' = name then Some v else getAttribute el name')"
  by (simp add: getAttribute_def setAttribute_def update_conv)

lemma getAttribute_setIfMissing:
  "getAttribute (setIfMissing el name v) name' =
     (if name' = name \<and> getAttribute el name = None then Some v else getAttribute el name')"
  by (simp add: setIfMissing_def hasAttribute_iff getAttribute_setAttribute)

lemma setIfMissing_present: "hasAttribute el name \<Longrightarrow> setIfMissing el name v = el"
  by (simp add: setIfMissing_def)

lemma getAttribute_removeAttribute:
  "getAttribute (removeAttribute el name) name' =
     (if name' = name then None else getAttribute el name')"
  by (auto simp: getAttribute_def removeAttribute_def delete_conv)

lemma names_distinct:
  "ascii ''width'' \<noteq> ascii ''height''" "ascii ''height'' \<noteq> ascii ''width''"
  "ascii ''width'' \<noteq> ascii ''viewBox''" "ascii ''viewBox'' \<noteq> ascii ''width''"
  "ascii ''height'' \<noteq> ascii ''viewBox''" "ascii ''viewBox'' \<noteq> ascii ''height''"
  by (simp_all add: ascii_def)

lemma ensureSvgDimensions_found:
  assumes "isValidSvg code" and "svgElement (parseFromString b code) = Some el"
  shows "ensureSvgDimensions b code =
     serializeToString b
       ((parseFromString b code)\<lparr>svgElement := Some (defaultDimensions (dimensionsFromViewBox b el))\<rparr>)"
proof -
  from assms(1) have "code \<noteq> []"
    by (auto simp: run_isValidSvg)
  with assms show ?thesis by (simp add: ensureSvgDimensions_def Let_def)
qed

lemma ensureSvgDimensions_guard:
  "code = [] \<or> \<not> isValidSvg code \<Longrightarrow> ensureSvgDimensions b code = code"
  by (simp add: ensureSvgDimensions_def)

text \<open>The attributes after the preview normalisation, case by case.\<close>

lemma normalised_width:
  "getAttribute (defaultDimensions (dimensionsFromViewBox b el)) (ascii ''width'') =
     (case getAttribute el (ascii ''width'') of
        Some v \<Rightarrow> Some v
      | None \<Rightarrow>
          (case viewBoxNumbers b el of
             None \<Rightarrow> Some (ascii ''300'')
           | Some viewBox \<Rightarrow>
               if length viewBox = 4 then Some (toString b (viewBox ! 2))
               else Some (ascii ''300'')))"
  by (auto simp: defaultDimensions_def dimensionsFromViewBox_def getAttribute_setIfMissing
      hasAttribute_iff names_distinct viewBoxNumbers_def split: option.splits)

lemma normalised_height:
  "getAttribute (defaultDimensions (dimensionsFromViewBox b el)) (ascii ''height'') =
     (case getAttribute el (ascii ''height'') of
        Some v \<Rightarrow> Some v
      | None \<Rightarrow>
          (case viewBoxNumbers b el of
             None \<Rightarrow> Some (ascii ''300'')
           | Some viewBox \<Rightarrow>
               if length viewBox = 4 then Some (toString b (viewBox ! 3))
               else Some (ascii ''300'')))"
  by (auto simp: defaultDimensions_def dimensionsFromViewBox_def getAttribute_setIfMissing
      hasAttribute_iff names_distinct viewBoxNumbers_def split: option.splits)

lemma normalised_unchanged:
  "hasAttribute el (ascii ''width'') \<Longrightarrow> hasAttribute el (ascii ''height'')
     \<Longrightarrow> defaultDimensions (dimensionsFromViewBox b el) = el"
  by (simp add: defaultDimensions_def dimensionsFromViewBox_def setIfMissing_present)

lemma exportDimensions_cases:
  "exportDimensions b el =
     (let width = parseInt b (orString (getAttribute el (ascii ''width'')) (ascii ''0''));
          height = parseInt b (orString (getAttribute el (ascii ''height'')) (ascii ''0''))
      in if \<not> falsy width \<and> \<not> falsy height then (width, height)
         else (case viewBoxNumbers b el of
                 None \<Rightarrow> (Num 800, Num 600)
               | Some viewBox \<Rightarrow>
                   if length viewBox = 4 \<and> \<not> falsy (viewBox ! 2) \<and> \<not> falsy (viewBox ! 3)
                   then (viewBox ! 2, viewBox ! 3)
                   else (Num 800, Num 600)))"
  by (auto simp: exportDimensions_def Let_def split: option.splits)

lemma exportAsImage_completes:
  assumes "svgCode st \<noteq> []"
    and "svgElement (parseFromString b (svgCode st)) = Some el"
    and "base64 b (serializeElement b (sizedElement b el)) = Inr enc"
    and "imageLoads b (ascii ''data:image/svg+xml;base64,'' @ enc)"
    and "context2d b"
  shows "exportAsImage b st format =
     Inr (st, [saveFormat st
                 (drawCanvas (ascii ''data:image/svg+xml;base64,'' @ enc) (exportDimensions b el))
                 format,
               Toast Success (ExportedAs format)])"
  using assms by (simp add: exportAsImage_def exportTry_def Let_def)

lemma canvasSize_integer_part:
  assumes "0 \<le> r" and "r < 2147483648"
  shows "canvasSize dflt (Num r) = nat \<lfloor>r\<rfloor>"
proof -
  from assms(1) have low: "0 \<le> \<lfloor>r\<rfloor>" by simp
  from assms(2) have high: "\<lfloor>r\<rfloor> < 2147483648" by (simp add: floor_less_iff)
  from low high have "\<lfloor>r\<rfloor> mod 4294967296 = \<lfloor>r\<rfloor>" by simp
  with assms(1) have "toUnsignedLong (Num r) = nat \<lfloor>r\<rfloor>"
    by (simp add: toUnsignedLong_def)
  moreover from high have "nat \<lfloor>r\<rfloor> \<le> 2147483647" by arith
  ultimately show ?thesis by (simp add: canvasSize_def)
qed

lemma viewBoxNumbers_four:
  assumes "getAttribute el (ascii ''viewBox'') = Some vb" and "split 0x20 vb = [x, y, w, h]"
  shows "viewBoxNumbers b el = Some [Number b x, Number b y, Number b w, Number b h]"
  using assms by (simp add: viewBoxNumbers_def)

lemma absent_reads_zero:
  "\<not> hasAttribute el name \<Longrightarrow> orString (getAttribute el name) (ascii ''0'') = ascii ''0''"
  by (simp add: hasAttribute_iff orString_def)

lemmas run_sample =
  sampleBrowser_def svg_def listAttributes_def readDecimal_def printNumber_def quoted_def
  hasAttribute_def getAttribute_def setAttribute_def setIfMissing_def removeAttribute_def
  viewBoxNumbers_def dimensionsFromViewBox_def defaultDimensions_def ensureSvgDimensions_def
  exportDimensions_def sizedElement_def drawCanvas_def saveFormat_def exportTry_def
  exportAsImage_def orString_def falsy_def mount_def Let_def readFraction_def
  canvasSize_def toUnsignedLong_def

text \<open>
  C1 (as amended): for a text that passes the validity check, whose \<open>svg\<close> element lacks
  a width or a height attribute and has a \<open>viewBox\<close> of four space-separated pieces, the
  third and fourth of which are numbers, \<open>ensureSvgDimensions\<close> sets each missing attribute
  to the third, respectively fourth, number, printed. \<open>exportAsImage\<close> takes these two
  numbers as the size of the export when neither is zero, and 800 by 600 when one is: it
  fills the rectangle and draws the image at that size, on a canvas whose width and
  height are the two numbers converted to unsigned integers. For a number from 0 up to
  2147483647 that is its integer part: the number itself when it is whole.
\<close>

theorem viewBox_gives_dimensions:
  assumes valid: "isValidSvg code"
    and found: "svgElement (parseFromString b code) = Some el"
    and missing: "\<not> hasAttribute el (ascii ''width'') \<or> \<not> hasAttribute el (ascii ''height'')"
    and viewBox: "getAttribute el (ascii ''viewBox'') = Some vb" "split 0x20 vb = [x, y, w, h]"
    and numbers: "Number b w = wn" "Number b h = hn" "wn \<noteq> NaN" "hn \<noteq> NaN"
  shows "ensureSvgDimensions b code =
           serializeToString b
             ((parseFromString b code)
                \<lparr>svgElement := Some (defaultDimensions (dimensionsFromViewBox b el))\<rparr>)
     \<and> getAttribute (defaultDimensions (dimensionsFromViewBox b el)) (ascii ''width'') =
         (if hasAttribute el (ascii ''width'') then getAttribute el (ascii ''width'')
          else Some (toString b wn))
     \<and> getAttribute (defaultDimensions (dimensionsFromViewBox b el)) (ascii ''height'') =
         (if hasAttribute el (ascii ''height'') then getAttribute el (ascii ''height'')
          else Some (toString b hn))
     \<and> (parseInt b (ascii ''0'') = Num 0 \<and> wn \<noteq> Num 0 \<and> hn \<noteq> Num 0 \<longrightarrow>
          exportDimensions b el = (wn, hn)
          \<and> (svgCode st = code
               \<and> base64 b (serializeElement b (sizedElement b el)) = Inr enc
               \<and> imageLoads b (ascii ''data:image/svg+xml;base64,'' @ enc)
               \<and> context2d b \<longrightarrow>
             exportAsImage b st format =
               Inr (st, [saveFormat st
                           \<lparr>canvasWidth = canvasSize 300 wn, canvasHeight = canvasSize 150 hn,
                            fillRect = (wn, hn),
                            drawImage = (ascii ''data:image/svg+xml;base64,'' @ enc, wn, hn)\<rparr>
                           format,
                         Toast Success (ExportedAs format)])))
     \<and> (wn = Num r \<and> 0 \<le> r \<and> r < 2147483648 \<longrightarrow> canvasSize 300 wn = nat \<lfloor>r\<rfloor>)
     \<and> (hn = Num r' \<and> 0 \<le> r' \<and> r' < 2147483648 \<longrightarrow> canvasSize 150 hn = nat \<lfloor>r'\<rfloor>)
     \<and> (parseInt b (ascii ''0'') = Num 0 \<and> (wn = Num 0 \<or> hn = Num 0) \<longrightarrow>
          exportDimensions b el = (Num 800, Num 600))"
proof -
  have vbn: "viewBoxNumbers b el = Some [Number b x, Number b y, wn, hn]"
    using viewBoxNumbers_four [OF viewBox, of b] numbers by simp
  have nonempty: "code \<noteq> []"
    using valid by (auto simp: run_isValidSvg)
  have preview: "ensureSvgDimensions b code =
           serializeToString b
             ((parseFromString b code)
                \<lparr>svgElement := Some (defaultDimensions (dimensionsFromViewBox b el))\<rparr>)"
    by (rule ensureSvgDimensions_found [OF valid found])
  have width: "getAttribute (defaultDimensions (dimensionsFromViewBox b el)) (ascii ''width'') =
         (if hasAttribute el (ascii ''width'') then getAttribute el (ascii ''width'')
          else Some (toString b wn))"
    unfolding normalised_width vbn by (auto simp: hasAttribute_iff)
  have height: "getAttribute (defaultDimensions (dimensionsFromViewBox b el)) (ascii ''height'') =
         (if hasAttribute el (ascii ''height'') then getAttribute el (ascii ''height'')
          else Some (toString b hn))"
    unfolding normalised_height vbn by (auto simp: hasAttribute_iff)
  have falls: "parseInt b (ascii ''0'') = Num 0 \<Longrightarrow>
      (\<not> falsy (parseInt b (orString (getAttribute el (ascii ''width'')) (ascii ''0'')))
         \<and> \<not> falsy (parseInt b (orString (getAttribute el (ascii ''height'')) (ascii ''0''))))
      = False"
    using missing by (auto simp: absent_reads_zero falsy_def)
  have dims: "exportDimensions b el = (wn, hn)"
    if "parseInt b (ascii ''0'') = Num 0" "wn \<noteq> Num 0" "hn \<noteq> Num 0"
    using that(2,3) numbers(3,4)
    unfolding exportDimensions_cases Let_def falls [OF that(1)] vbn by (simp add: falsy_def)
  have dflt: "exportDimensions b el = (Num 800, Num 600)"
    if "parseInt b (ascii ''0'') = Num 0" "wn = Num 0 \<or> hn = Num 0"
    using that(2)
    unfolding exportDimensions_cases Let_def falls [OF that(1)] vbn by (auto simp: falsy_def)
  have export: "exportAsImage b st format =
               Inr (st, [saveFormat st
                           \<lparr>canvasWidth = canvasSize 300 wn, canvasHeight = canvasSize 150 hn,
                            fillRect = (wn, hn),
                            drawImage = (ascii ''data:image/svg+xml;base64,'' @ enc, wn, hn)\<rparr>
                           format,
                         Toast Success (ExportedAs format)])"
    if "parseInt b (ascii ''0'') = Num 0" "wn \<noteq> Num 0" "hn \<noteq> Num 0" "svgCode st = code"
      "base64 b (serializeElement b (sizedElement b el)) = Inr enc"
      "imageLoads b (ascii ''data:image/svg+xml;base64,'' @ enc)" "context2d b"
    using exportAsImage_completes [of st b el enc format] that nonempty found
    by (simp add: dims drawCanvas_def)
  have cw: "canvasSize 300 wn = nat \<lfloor>r\<rfloor>" if "wn = Num r" "0 \<le> r" "r < 2147483648"
    using that by (simp add: canvasSize_integer_part)
  have ch: "canvasSize 150 hn = nat \<lfloor>r'\<rfloor>" if "hn = Num r'" "0 \<le> r'" "r' < 2147483648"
    using that by (simp add: canvasSize_integer_part)
  show ?thesis
    using preview width height dims dflt export cw ch by blast
qed


lemmas run_text = openTag_def markup_def selfClosing_def

theorem viewBox_gives_dimensions_witness:
  "isValidSvg (markup [(''viewBox'', ''0 0 24 48'')])
   \<and> svgElement (parseFromString (sampleBrowser (Some (svg [(''viewBox'', ''0 0 24 48'')])))
        (markup [(''viewBox'', ''0 0 24 48'')])) = Some (svg [(''viewBox'', ''0 0 24 48'')])
   \<and> \<not> hasAttribute (svg [(''viewBox'', ''0 0 24 48'')]) (ascii ''width'')
   \<and> getAttribute (svg [(''viewBox'', ''0 0 24 48'')]) (ascii ''viewBox'') = Some (ascii ''0 0 24 48'')
   \<and> split 0x20 (ascii ''0 0 24 48'') = [ascii ''0'', ascii ''0'', ascii ''24'', ascii ''48'']
   \<and> Number (sampleBrowser (Some (svg [(''viewBox'', ''0 0 24 48'')]))) (ascii ''24'') = Num 24
   \<and> Number (sampleBrowser (Some (svg [(''viewBox'', ''0 0 24 48'')]))) (ascii ''48'') = Num 48
   \<and> getAttribute
        (defaultDimensions
           (dimensionsFromViewBox (sampleBrowser (Some (svg [(''viewBox'', ''0 0 24 48'')])))
              (svg [(''viewBox'', ''0 0 24 48'')])))
        (ascii ''width'') = Some (ascii ''24'')
   \<and> getAttribute
        (defaultDimensions
           (dimensionsFromViewBox (sampleBrowser (Some (svg [(''viewBox'', ''0 0 24 48'')])))
              (svg [(''viewBox'', ''0 0 24 48'')])))
        (ascii ''height'') = Some (ascii ''48'')
   \<and> exportDimensions (sampleBrowser (Some (svg [(''viewBox'', ''0 0 24 48'')])))
        (svg [(''viewBox'', ''0 0 24 48'')]) = (Num 24, Num 48)
   \<and> svgCode (mount (markup [(''viewBox'', ''0 0 24 48'')])) = markup [(''viewBox'', ''0 0 24 48'')]
   \<and> base64 (sampleBrowser (Some (svg [(''viewBox'', ''0 0 24 48'')])))
        (serializeElement (sampleBrowser (Some (svg [(''viewBox'', ''0 0 24 48'')])))
           (sizedElement (sampleBrowser (Some (svg [(''viewBox'', ''0 0 24 48'')])))
              (svg [(''viewBox'', ''0 0 24 48'')])))
       = Inr (ascii '' viewBox=0 0 24 48 width=24 height=48'')
   \<and> imageLoads (sampleBrowser (Some (svg [(''viewBox'', ''0 0 24 48'')])))
        (ascii ''data:image/svg+xml;base64,'' @ ascii '' viewBox=0 0 24 48 width=24 height=48'')
   \<and> context2d (sampleBrowser (Some (svg [(''viewBox'', ''0 0 24 48'')])))
   \<and> exportAsImage (sampleBrowser (Some (svg [(''viewBox'', ''0 0 24 48'')])))
        (mount (markup [(''viewBox'', ''0 0 24 48'')])) Jpeg =
       Inr (mount (markup [(''viewBox'', ''0 0 24 48'')]),
            [saveFormat (mount (markup [(''viewBox'', ''0 0 24 48'')]))
               \<lparr>canvasWidth = 24, canvasHeight = 48, fillRect = (Num 24, Num 48),
                drawImage = (ascii ''data:image/svg+xml;base64,''
                             @ ascii '' viewBox=0 0 24 48 width=24 height=48'',
                             Num 24, Num 48)\<rparr>
               Jpeg,
             Toast Success (ExportedAs Jpeg)])
   \<and> saveFormat (mount (markup [(''viewBox'', ''0 0 24 48'')]))
        \<lparr>canvasWidth = 24, canvasHeight = 48, fillRect = (Num 24, Num 48),
         drawImage = (ascii ''data:image/svg+xml;base64,''
                      @ ascii '' viewBox=0 0 24 48 width=24 height=48'',
                      Num 24, Num 48)\<rparr>
        Jpeg =
       SaveAs (CanvasDataURL
                 \<lparr>canvasWidth = 24, canvasHeight = 48, fillRect = (Num 24, Num 48),
                  drawImage = (ascii ''data:image/svg+xml;base64,''
                               @ ascii '' viewBox=0 0 24 48 width=24 height=48'',
                               Num 24, Num 48)\<rparr>
                 ''image/jpeg'' (Some 0.95))
         (ascii ''svg-preview.jpg'')
   \<and> isValidSvg (markup [(''viewBox'', ''0 0 0 0'')])
   \<and> svgElement (parseFromString (sampleBrowser (Some (svg [(''viewBox'', ''0 0 0 0'')])))
        (markup [(''viewBox'', ''0 0 0 0'')])) = Some (svg [(''viewBox'', ''0 0 0 0'')])
   \<and> \<not> hasAttribute (svg [(''viewBox'', ''0 0 0 0'')]) (ascii ''width'')
   \<and> getAttribute (svg [(''viewBox'', ''0 0 0 0'')]) (ascii ''viewBox'') = Some (ascii ''0 0 0 0'')
   \<and> split 0x20 (ascii ''0 0 0 0'') = [ascii ''0'', ascii ''0'', ascii ''0'', ascii ''0'']
   \<and> Number (sampleBrowser (Some (svg [(''viewBox'', ''0 0 0 0'')]))) (ascii ''0'') = Num 0
   \<and> exportDimensions (sampleBrowser (Some (svg [(''viewBox'', ''0 0 0 0'')])))
        (svg [(''viewBox'', ''0 0 0 0'')]) = (Num 800, Num 600)"
proof -
  let ?A = "[(''viewBox'', ''0 0 24 48'')]"
  let ?B = "sampleBrowser (Some (svg ?A))"
  let ?Z = "[(''viewBox'', ''0 0 0 0'')]"
  let ?C = "sampleBrowser (Some (svg ?Z))"
  have valid: "isValidSvg (markup ?A)"
    by (simp add: run_text quoted_def run_isValidSvg)
  have found: "svgElement (parseFromString ?B (markup ?A)) = Some (svg ?A)"
    by (simp add: sampleBrowser_def)
  have missing: "\<not> hasAttribute (svg ?A) (ascii ''width'')"
    by (simp add: hasAttribute_def svg_def ascii_def)
  have viewBox: "getAttribute (svg ?A) (ascii ''viewBox'') = Some (ascii ''0 0 24 48'')"
    by (simp add: getAttribute_def svg_def)
  have pieces: "split 0x20 (ascii ''0 0 24 48'') = [ascii ''0'', ascii ''0'', ascii ''24'', ascii ''48'']"
    by (simp add: ascii_def)
  have w: "Number ?B (ascii ''24'') = Num 24"
    by (simp add: sampleBrowser_def readDecimal_def ascii_def)
  have h: "Number ?B (ascii ''48'') = Num 48"
    by (simp add: sampleBrowser_def readDecimal_def ascii_def)
  have zero: "parseInt ?B (ascii ''0'') = Num 0"
    by (simp add: sampleBrowser_def readDecimal_def ascii_def)
  have shown: "toString ?B (Num 24) = ascii ''24''" "toString ?B (Num 48) = ascii ''48''"
    by (simp_all add: sampleBrowser_def printNumber_def)
  have src: "svgCode (mount (markup ?A)) = markup ?A"
    by (simp add: mount_def)
  have enc: "base64 ?B (serializeElement ?B (sizedElement ?B (svg ?A)))
       = Inr (ascii '' viewBox=0 0 24 48 width=24 height=48'')"
    by (simp add: run_sample ascii_def)
  have loads: "imageLoads ?B
        (ascii ''data:image/svg+xml;base64,'' @ ascii '' viewBox=0 0 24 48 width=24 height=48'')"
    and ctx: "context2d ?B"
    by (simp_all add: sampleBrowser_def)
  have valid0: "isValidSvg (markup ?Z)"
    by (simp add: run_text quoted_def run_isValidSvg)
  have found0: "svgElement (parseFromString ?C (markup ?Z)) = Some (svg ?Z)"
    by (simp add: sampleBrowser_def)
  have missing0: "\<not> hasAttribute (svg ?Z) (ascii ''width'')"
    by (simp add: hasAttribute_def svg_def ascii_def)
  have viewBox0: "getAttribute (svg ?Z) (ascii ''viewBox'') = Some (ascii ''0 0 0 0'')"
    by (simp add: getAttribute_def svg_def)
  have pieces0: "split 0x20 (ascii ''0 0 0 0'') = [ascii ''0'', ascii ''0'', ascii ''0'', ascii ''0'']"
    by (simp add: ascii_def)
  have z: "Number ?C (ascii ''0'') = Num 0" and zero0: "parseInt ?C (ascii ''0'') = Num 0"
    by (simp_all add: sampleBrowser_def readDecimal_def ascii_def)
  have number: "Num 0 \<noteq> NaN" "Num 24 \<noteq> NaN" "Num 48 \<noteq> NaN"
    by simp_all
  note inst0 = viewBox_gives_dimensions
      [OF valid0 found0 disjI1 [OF missing0] viewBox0 pieces0 z z number(1) number(1)]
  from inst0 zero0 have dflt: "exportDimensions ?C (svg ?Z) = (Num 800, Num 600)"
    by simp
  note inst = viewBox_gives_dimensions
      [OF valid found disjI1 [OF missing] viewBox pieces w h number(2) number(3),
      where st = "mount (markup ?A)"
        and enc = "ascii '' viewBox=0 0 24 48 width=24 height=48''" and format = Jpeg
        and r = 24 and r' = 48]
  from inst have cw: "canvasSize 300 (Num 24) = 24" and ch: "canvasSize 150 (Num 48) = 48"
    by simp_all
  from inst zero src enc loads ctx
  have "exportAsImage ?B (mount (markup ?A)) Jpeg =
       Inr (mount (markup ?A),
            [saveFormat (mount (markup ?A))
               \<lparr>canvasWidth = canvasSize 300 (Num 24), canvasHeight = canvasSize 150 (Num 48),
                fillRect = (Num 24, Num 48),
                drawImage = (ascii ''data:image/svg+xml;base64,''
                             @ ascii '' viewBox=0 0 24 48 width=24 height=48'',
                             Num 24, Num 48)\<rparr>
               Jpeg,
             Toast Success (ExportedAs Jpeg)])"
    by simp
  then have export: "exportAsImage ?B (mount (markup ?A)) Jpeg =
       Inr (mount (markup ?A),
            [saveFormat (mount (markup ?A))
               \<lparr>canvasWidth = 24, canvasHeight = 48, fillRect = (Num 24, Num 48),
                drawImage = (ascii ''data:image/svg+xml;base64,''
                             @ ascii '' viewBox=0 0 24 48 width=24 height=48'',
                             Num 24, Num 48)\<rparr>
               Jpeg,
             Toast Success (ExportedAs Jpeg)])"
    unfolding cw ch .
  have saving: "saveFormat (mount (markup ?A))
        \<lparr>canvasWidth = 24, canvasHeight = 48, fillRect = (Num 24, Num 48),
         drawImage = (ascii ''data:image/svg+xml;base64,''
                      @ ascii '' viewBox=0 0 24 48 width=24 height=48'',
                      Num 24, Num 48)\<rparr>
        Jpeg =
       SaveAs (CanvasDataURL
                 \<lparr>canvasWidth = 24, canvasHeight = 48, fillRect = (Num 24, Num 48),
                  drawImage = (ascii ''data:image/svg+xml;base64,''
                               @ ascii '' viewBox=0 0 24 48 width=24 height=48'',
                               Num 24, Num 48)\<rparr>
                 ''image/jpeg'' (Some 0.95))
         (ascii ''svg-preview.jpg'')"
    by (simp add: saveFormat_def mount_def ascii_def)
  from inst missing have "getAttribute (defaultDimensions (dimensionsFromViewBox ?B (svg ?A)))
        (ascii ''width'') = Some (ascii ''24'')"
    by (simp add: shown)
  moreover have "\<not> hasAttribute (svg ?A) (ascii ''height'')"
    by (simp add: hasAttribute_def svg_def ascii_def)
  with inst have "getAttribute (defaultDimensions (dimensionsFromViewBox ?B (svg ?A)))
        (ascii ''height'') = Some (ascii ''48'')"
    by (simp add: shown)
  moreover from inst zero have "exportDimensions ?B (svg ?A) = (Num 24, Num 48)"
    by simp
  ultimately show ?thesis
    using valid found missing viewBox pieces w h src enc loads ctx export saving
      valid0 found0 missing0 viewBox0 pieces0 z dflt
    by blast
qed

text \<open>
  The claim as first stated fails at a \<open>viewBox\<close> of \<open>0 0 0 0\<close>, which is exported at
  800 by 600, at a self-closing element, whose text the preview normalisation returns
  unchanged, and at a \<open>viewBox\<close> of \<open>0 0 24.5 48.5\<close>, which is exported on a canvas of
  24 by 48.
\<close>

theorem viewBox_gives_dimensions_counterexample:
  "\<not> hasAttribute (svg [(''viewBox'', ''0 0 0 0'')]) (ascii ''width'')
   \<and> \<not> hasAttribute (svg [(''viewBox'', ''0 0 0 0'')]) (ascii ''height'')
   \<and> viewBoxNumbers (sampleBrowser (Some (svg [(''viewBox'', ''0 0 0 0'')])))
        (svg [(''viewBox'', ''0 0 0 0'')]) = Some [Num 0, Num 0, Num 0, Num 0]
   \<and> exportDimensions (sampleBrowser (Some (svg [(''viewBox'', ''0 0 0 0'')])))
        (svg [(''viewBox'', ''0 0 0 0'')]) = (Num 800, Num 600)
   \<and> \<not> hasAttribute (svg [(''viewBox'', ''0 0 24 48'')]) (ascii ''width'')
   \<and> viewBoxNumbers (sampleBrowser (Some (svg [(''viewBox'', ''0 0 24 48'')])))
        (svg [(''viewBox'', ''0 0 24 48'')]) = Some [Num 0, Num 0, Num 24, Num 48]
   \<and> ensureSvgDimensions (sampleBrowser (Some (svg [(''viewBox'', ''0 0 24 48'')])))
        (selfClosing [(''viewBox'', ''0 0 24 48'')]) = selfClosing [(''viewBox'', ''0 0 24 48'')]
   \<and> \<not> hasAttribute (svg [(''viewBox'', ''0 0 24.5 48.5'')]) (ascii ''width'')
   \<and> viewBoxNumbers
        ((sampleBrowser (Some (svg [(''viewBox'', ''0 0 24.5 48.5'')])))\<lparr>Number := readFraction\<rparr>)
        (svg [(''viewBox'', ''0 0 24.5 48.5'')]) = Some [Num 0, Num 0, Num 24.5, Num 48.5]
   \<and> exportAsImage
        ((sampleBrowser (Some (svg [(''viewBox'', ''0 0 24.5 48.5'')])))\<lparr>Number := readFraction\<rparr>)
        (mount (markup [(''viewBox'', ''0 0 24.5 48.5'')])) Png =
       Inr (mount (markup [(''viewBox'', ''0 0 24.5 48.5'')]),
            [SaveAs (CanvasDataURL
                       \<lparr>canvasWidth = 24, canvasHeight = 48, fillRect = (Num 24.5, Num 48.5),
                        drawImage = (ascii ''data:image/svg+xml;base64,''
                                     @ ascii '' viewBox=0 0 24.5 48.5 width=24.5 height=48.5'',
                                     Num 24.5, Num 48.5)\<rparr>
                       ''image/png'' None)
               (ascii ''svg-preview.png''),
             Toast Success (ExportedAs Png)])"
proof -
  let ?F = "[(''viewBox'', ''0 0 24.5 48.5'')]"
  let ?B = "(sampleBrowser (Some (svg ?F)))\<lparr>Number := readFraction\<rparr>"
  have zero: "\<not> hasAttribute (svg [(''viewBox'', ''0 0 0 0'')]) (ascii ''width'')
   \<and> \<not> hasAttribute (svg [(''viewBox'', ''0 0 0 0'')]) (ascii ''height'')
   \<and> viewBoxNumbers (sampleBrowser (Some (svg [(''viewBox'', ''0 0 0 0'')])))
        (svg [(''viewBox'', ''0 0 0 0'')]) = Some [Num 0, Num 0, Num 0, Num 0]
   \<and> exportDimensions (sampleBrowser (Some (svg [(''viewBox'', ''0 0 0 0'')])))
        (svg [(''viewBox'', ''0 0 0 0'')]) = (Num 800, Num 600)
   \<and> \<not> hasAttribute (svg [(''viewBox'', ''0 0 24 48'')]) (ascii ''width'')
   \<and> viewBoxNumbers (sampleBrowser (Some (svg [(''viewBox'', ''0 0 24 48'')])))
        (svg [(''viewBox'', ''0 0 24 48'')]) = Some [Num 0, Num 0, Num 24, Num 48]
   \<and> ensureSvgDimensions (sampleBrowser (Some (svg [(''viewBox'', ''0 0 24 48'')])))
        (selfClosing [(''viewBox'', ''0 0 24 48'')]) = selfClosing [(''viewBox'', ''0 0 24 48'')]"
    by (simp add: run_sample run_text run_isValidSvg)
  have nowidth: "\<not> hasAttribute (svg ?F) (ascii ''width'')"
    by (simp add: hasAttribute_def svg_def ascii_def)
  have numbers: "viewBoxNumbers ?B (svg ?F) = Some [Num 0, Num 0, Num 24.5, Num 48.5]"
    by (simp add: viewBoxNumbers_def getAttribute_def svg_def sampleBrowser_def readFraction_def
        readDecimal_def ascii_def)
  have dims: "exportDimensions ?B (svg ?F) = (Num 24.5, Num 48.5)"
    unfolding exportDimensions_cases numbers
    by (simp add: getAttribute_def svg_def sampleBrowser_def readDecimal_def orString_def
        falsy_def ascii_def)
  have enc: "base64 ?B (serializeElement ?B (sizedElement ?B (svg ?F)))
       = Inr (ascii '' viewBox=0 0 24.5 48.5 width=24.5 height=48.5'')"
    unfolding sizedElement_def dims
    by (simp add: sampleBrowser_def listAttributes_def setAttribute_def svg_def printNumber_def
        ascii_def)
  have nonempty: "svgCode (mount (markup ?F)) \<noteq> []"
    by (simp add: mount_def run_text ascii_def)
  have found: "svgElement (parseFromString ?B (svgCode (mount (markup ?F)))) = Some (svg ?F)"
    by (simp add: sampleBrowser_def)
  have loads: "imageLoads ?B
      (ascii ''data:image/svg+xml;base64,'' @ ascii '' viewBox=0 0 24.5 48.5 width=24.5 height=48.5'')"
    and ctx: "context2d ?B"
    by (simp_all add: sampleBrowser_def)
  have whole: "\<lfloor>24.5 :: real\<rfloor> = 24" "\<lfloor>48.5 :: real\<rfloor> = 48"
    by (simp_all add: floor_eq_iff)
  have cut: "canvasSize 300 (Num 24.5) = nat \<lfloor>24.5 :: real\<rfloor>"
    "canvasSize 150 (Num 48.5) = nat \<lfloor>48.5 :: real\<rfloor>"
    by (rule canvasSize_integer_part; simp)+
  have size: "canvasSize 300 (Num 24.5) = 24" "canvasSize 150 (Num 48.5) = 48"
    unfolding cut whole by simp_all
  have "exportAsImage ?B (mount (markup ?F)) Png =
       Inr (mount (markup ?F),
            [SaveAs (CanvasDataURL
                       \<lparr>canvasWidth = 24, canvasHeight = 48, fillRect = (Num 24.5, Num 48.5),
                        drawImage = (ascii ''data:image/svg+xml;base64,''
                                     @ ascii '' viewBox=0 0 24.5 48.5 width=24.5 height=48.5'',
                                     Num 24.5, Num 48.5)\<rparr>
                       ''image/png'' None)
               (ascii ''svg-preview.png''),
             Toast Success (ExportedAs Png)])"
    unfolding exportAsImage_completes [OF nonempty found enc loads ctx] dims drawCanvas_def
      fst_conv snd_conv size
    by (simp add: saveFormat_def mount_def ascii_def)
  with zero nowidth numbers show ?thesis by blast
qed

text \<open>
  C4 (as amended): the fallback order of the two routines. For a text that passes the
  validity check, \<open>ensureSvgDimensions\<close> leaves an element with both attributes unchanged,
  and sets a missing attribute from a \<open>viewBox\<close> of four components if there is one, to
  300 otherwise. \<open>exportAsImage\<close> uses the width and height attributes as \<open>parseInt\<close>
  reads them when both are numbers other than zero; otherwise the third and fourth numbers
  of a \<open>viewBox\<close> of four components when both are numbers other than zero; otherwise
  800 by 600.
\<close>

theorem fallback_order:
  "(isValidSvg code \<and> svgElement (parseFromString b code) = Some el \<longrightarrow>
      ensureSvgDimensions b code =
        serializeToString b
          ((parseFromString b code)
             \<lparr>svgElement := Some (defaultDimensions (dimensionsFromViewBox b el))\<rparr>))
   \<and> (hasAttribute el' (ascii ''width'') \<and> hasAttribute el' (ascii ''height'') \<longrightarrow>
        defaultDimensions (dimensionsFromViewBox b el') = el')
   \<and> getAttribute (defaultDimensions (dimensionsFromViewBox b el')) (ascii ''width'') =
       (case getAttribute el' (ascii ''width'') of
          Some v \<Rightarrow> Some v
        | None \<Rightarrow>
            (case viewBoxNumbers b el' of
               None \<Rightarrow> Some (ascii ''300'')
             | Some viewBox \<Rightarrow>
                 if length viewBox = 4 then Some (toString b (viewBox ! 2))
                 else Some (ascii ''300'')))
   \<and> getAttribute (defaultDimensions (dimensionsFromViewBox b el')) (ascii ''height'') =
       (case getAttribute el' (ascii ''height'') of
          Some v \<Rightarrow> Some v
        | None \<Rightarrow>
            (case viewBoxNumbers b el' of
               None \<Rightarrow> Some (ascii ''300'')
             | Some viewBox \<Rightarrow>
                 if length viewBox = 4 then Some (toString b (viewBox ! 3))
                 else Some (ascii ''300'')))
   \<and> exportDimensions b el' =
       (let width = parseInt b (orString (getAttribute el' (ascii ''width'')) (ascii ''0''));
            height = parseInt b (orString (getAttribute el' (ascii ''height'')) (ascii ''0''))
        in if \<not> falsy width \<and> \<not> falsy height then (width, height)
           else (case viewBoxNumbers b el' of
                   None \<Rightarrow> (Num 800, Num 600)
                 | Some viewBox \<Rightarrow>
                     if length viewBox = 4 \<and> \<not> falsy (viewBox ! 2) \<and> \<not> falsy (viewBox ! 3)
                     then (viewBox ! 2, viewBox ! 3)
                     else (Num 800, Num 600)))"
  using ensureSvgDimensions_found [of code b el] normalised_unchanged [of el' b]
    normalised_width [of b el'] normalised_height [of b el'] exportDimensions_cases [of b el']
  by blast

theorem fallback_order_witness:
  "isValidSvg (markup [(''width'', ''100''), (''height'', ''48'')])
   \<and> svgElement (parseFromString (sampleBrowser (Some (svg [(''width'', ''100''), (''height'', ''48'')])))
        (markup [(''width'', ''100''), (''height'', ''48'')]))
       = Some (svg [(''width'', ''100''), (''height'', ''48'')])
   \<and> hasAttribute (svg [(''width'', ''100''), (''height'', ''48'')]) (ascii ''width'')
   \<and> hasAttribute (svg [(''width'', ''100''), (''height'', ''48'')]) (ascii ''height'')
   \<and> ensureSvgDimensions (sampleBrowser (Some (svg [(''width'', ''100''), (''height'', ''48'')])))
        (markup [(''width'', ''100''), (''height'', ''48'')])
       = serializeToString (sampleBrowser (Some (svg [(''width'', ''100''), (''height'', ''48'')])))
           \<lparr>svgElement = Some (svg [(''width'', ''100''), (''height'', ''48'')]), surroundings = ()\<rparr>
   \<and> exportDimensions (sampleBrowser (Some (svg [(''width'', ''100''), (''height'', ''48'')])))
        (svg [(''width'', ''100''), (''height'', ''48'')]) = (Num 100, Num 48)"
proof -
  let ?A = "[(''width'', ''100''), (''height'', ''48'')]"
  let ?B = "sampleBrowser (Some (svg ?A))"
  have valid: "isValidSvg (markup ?A)"
    by (simp add: run_text quoted_def run_isValidSvg)
  have found: "svgElement (parseFromString ?B (markup ?A)) = Some (svg ?A)"
    by (simp add: sampleBrowser_def)
  have doc: "parseFromString ?B (markup ?A) = \<lparr>svgElement = Some (svg ?A), surroundings = ()\<rparr>"
    by (simp add: sampleBrowser_def)
  have width: "hasAttribute (svg ?A) (ascii ''width'')"
    by (simp add: hasAttribute_def svg_def)
  have height: "hasAttribute (svg ?A) (ascii ''height'')"
    by (simp add: hasAttribute_def svg_def)
  have w: "parseInt ?B (orString (getAttribute (svg ?A) (ascii ''width'')) (ascii ''0'')) = Num 100"
    by (simp add: sampleBrowser_def readDecimal_def orString_def getAttribute_def svg_def ascii_def)
  have h: "parseInt ?B (orString (getAttribute (svg ?A) (ascii ''height'')) (ascii ''0'')) = Num 48"
    by (simp add: sampleBrowser_def readDecimal_def orString_def getAttribute_def svg_def ascii_def)
  note inst = fallback_order [where code = "markup ?A" and b = ?B and el = "svg ?A" and el' = "svg ?A"]
  from inst valid found width height
  have "ensureSvgDimensions ?B (markup ?A)
       = serializeToString ?B \<lparr>svgElement = Some (svg ?A), surroundings = ()\<rparr>"
    by (simp add: doc)
  moreover from inst have "exportDimensions ?B (svg ?A) = (Num 100, Num 48)"
    by (simp add: w h falsy_def)
  ultimately show ?thesis
    using valid found width height by blast
qed

text \<open>
  The claim as first stated fails for explicit attributes \<open>width="0" height="0"\<close>, which
  the export replaces by 800 and 600, and for a self-closing element without attributes,
  which the preview normalisation returns unchanged, with no default.
\<close>

theorem fallback_order_counterexample:
  "hasAttribute (svg [(''width'', ''0''), (''height'', ''0'')]) (ascii ''width'')
   \<and> hasAttribute (svg [(''width'', ''0''), (''height'', ''0'')]) (ascii ''height'')
   \<and> exportDimensions (sampleBrowser (Some (svg [(''width'', ''0''), (''height'', ''0'')])))
        (svg [(''width'', ''0''), (''height'', ''0'')]) = (Num 800, Num 600)
   \<and> getAttribute
        (sizedElement (sampleBrowser (Some (svg [(''width'', ''0''), (''height'', ''0'')])))
           (svg [(''width'', ''0''), (''height'', ''0'')]))
        (ascii ''width'') = Some (ascii ''800'')
   \<and> \<not> hasAttribute (svg []) (ascii ''width'')
   \<and> \<not> hasAttribute (svg []) (ascii ''height'')
   \<and> viewBoxNumbers (sampleBrowser (Some (svg []))) (svg []) = None
   \<and> ensureSvgDimensions (sampleBrowser (Some (svg []))) (selfClosing []) = selfClosing []"
  by (simp add: run_sample run_text run_isValidSvg)

lemma exportDimensions_falls_through:
  assumes "falsy (parseInt b (orString (getAttribute el (ascii ''width'')) (ascii ''0'')))
           \<or> falsy (parseInt b (orString (getAttribute el (ascii ''height'')) (ascii ''0'')))"
  shows "exportDimensions b el =
     (case viewBoxNumbers b el of
        None \<Rightarrow> (Num 800, Num 600)
      | Some viewBox \<Rightarrow>
          if length viewBox = 4 \<and> \<not> falsy (viewBox ! 2) \<and> \<not> falsy (viewBox ! 3)
          then (viewBox ! 2, viewBox ! 3)
          else (Num 800, Num 600))"
  using assms unfolding exportDimensions_cases Let_def by auto

lemma viewBoxNumbers_removeAttribute:
  "name \<noteq> ascii ''viewBox'' \<Longrightarrow> viewBoxNumbers b (removeAttribute el name) = viewBoxNumbers b el"
  by (simp add: viewBoxNumbers_def getAttribute_removeAttribute)

lemma orString_falsy:
  assumes "parseInt b (ascii ''0'') = Num 0" and "getAttribute el name = Some v"
    and "falsy (parseInt b v)"
  shows "falsy (parseInt b (orString (getAttribute el name) (ascii ''0'')))"
  using assms by (simp add: orString_def falsy_def)

lemma treated_as_absent:
  assumes zero: "parseInt b (ascii ''0'') = Num 0"
    and name: "name = ascii ''width'' \<or> name = ascii ''height''"
    and attr: "getAttribute el name = Some v" and unreadable: "falsy (parseInt b v)"
  shows "exportDimensions b el = exportDimensions b (removeAttribute el name)"
proof -
  have present: "falsy (parseInt b (orString (getAttribute el name) (ascii ''0'')))"
    by (rule orString_falsy [OF zero attr unreadable])
  have absent: "falsy (parseInt b (orString (getAttribute (removeAttribute el name) name) (ascii ''0'')))"
    using zero by (simp add: getAttribute_removeAttribute orString_def falsy_def)
  have same: "viewBoxNumbers b (removeAttribute el name) = viewBoxNumbers b el"
    using name by (auto simp: viewBoxNumbers_removeAttribute names_distinct)
  from name show ?thesis
  proof
    assume "name = ascii ''width''"
    with present absent same show ?thesis
      by (simp add: exportDimensions_falls_through)
  next
    assume "name = ascii ''height''"
    with present absent same show ?thesis
      by (simp add: exportDimensions_falls_through)
  qed
qed

text \<open>
  C8 (as amended): the two routines have different defaults. For an \<open>svg\<close> element with
  no width, no height and no \<open>viewBox\<close> of four components, \<open>ensureSvgDimensions\<close> sets
  width and height to 300, provided the text passes the validity check, while
  \<open>exportAsImage\<close>, which does not run that check, uses 800 by 600. For
  \<open>exportAsImage\<close> a width or height attribute that \<open>parseInt\<close> reads as zero or as
  \<open>NaN\<close> is as good as absent.
\<close>

theorem defaults_differ:
  assumes found: "svgElement (parseFromString b code) = Some el"
    and nowidth: "\<not> hasAttribute el (ascii ''width'')"
    and noheight: "\<not> hasAttribute el (ascii ''height'')"
    and noviewBox: "\<forall>viewBox. viewBoxNumbers b el = Some viewBox \<longrightarrow> length viewBox \<noteq> 4"
    and zero: "parseInt b (ascii ''0'') = Num 0"
  shows "(isValidSvg code \<longrightarrow>
            ensureSvgDimensions b code =
              serializeToString b
                ((parseFromString b code)
                   \<lparr>svgElement := Some (defaultDimensions (dimensionsFromViewBox b el))\<rparr>)
            \<and> getAttribute (defaultDimensions (dimensionsFromViewBox b el)) (ascii ''width'')
                = Some (ascii ''300'')
            \<and> getAttribute (defaultDimensions (dimensionsFromViewBox b el)) (ascii ''height'')
                = Some (ascii ''300''))
     \<and> exportDimensions b el = (Num 800, Num 600)
     \<and> ((name = ascii ''width'' \<or> name = ascii ''height'')
          \<and> getAttribute el' name = Some v \<and> falsy (parseInt b v) \<longrightarrow>
          exportDimensions b el' = exportDimensions b (removeAttribute el' name))"
proof -
  have w: "getAttribute (defaultDimensions (dimensionsFromViewBox b el)) (ascii ''width'')
                = Some (ascii ''300'')"
    unfolding normalised_width using nowidth noviewBox
    by (auto simp: hasAttribute_iff split: option.splits)
  have h: "getAttribute (defaultDimensions (dimensionsFromViewBox b el)) (ascii ''height'')
                = Some (ascii ''300'')"
    unfolding normalised_height using noheight noviewBox
    by (auto simp: hasAttribute_iff split: option.splits)
  have "falsy (parseInt b (orString (getAttribute el (ascii ''width'')) (ascii ''0'')))"
    using nowidth zero by (simp add: absent_reads_zero falsy_def)
  then have e: "exportDimensions b el = (Num 800, Num 600)"
    using noviewBox by (auto simp: exportDimensions_falls_through split: option.splits)
  show ?thesis
    using ensureSvgDimensions_found [OF _ found] w h e
      treated_as_absent [OF zero, of name el' v]
    by blast
qed

theorem defaults_differ_witness:
  "svgElement (parseFromString (sampleBrowser (Some (svg []))) (markup [])) = Some (svg [])
   \<and> \<not> hasAttribute (svg []) (ascii ''width'')
   \<and> \<not> hasAttribute (svg []) (ascii ''height'')
   \<and> viewBoxNumbers (sampleBrowser (Some (svg []))) (svg []) = None
   \<and> parseInt (sampleBrowser (Some (svg []))) (ascii ''0'') = Num 0
   \<and> isValidSvg (markup [])
   \<and> getAttribute (svg [(''width'', ''abc''), (''height'', ''48'')]) (ascii ''width'')
       = Some (ascii ''abc'')
   \<and> falsy (parseInt (sampleBrowser (Some (svg []))) (ascii ''abc''))
   \<and> getAttribute
        (defaultDimensions (dimensionsFromViewBox (sampleBrowser (Some (svg []))) (svg [])))
        (ascii ''width'') = Some (ascii ''300'')
   \<and> getAttribute
        (defaultDimensions (dimensionsFromViewBox (sampleBrowser (Some (svg []))) (svg [])))
        (ascii ''height'') = Some (ascii ''300'')
   \<and> exportDimensions (sampleBrowser (Some (svg []))) (svg []) = (Num 800, Num 600)
   \<and> exportDimensions (sampleBrowser (Some (svg []))) (svg [(''width'', ''abc''), (''height'', ''48'')])
       = exportDimensions (sampleBrowser (Some (svg [])))
           (removeAttribute (svg [(''width'', ''abc''), (''height'', ''48'')]) (ascii ''width''))"
proof -
  let ?B = "sampleBrowser (Some (svg []))"
  let ?E = "svg [(''width'', ''abc''), (''height'', ''48'')]"
  have found: "svgElement (parseFromString ?B (markup [])) = Some (svg [])"
    by (simp add: sampleBrowser_def)
  have nowidth: "\<not> hasAttribute (svg []) (ascii ''width'')"
    and noheight: "\<not> hasAttribute (svg []) (ascii ''height'')"
    by (simp_all add: hasAttribute_def svg_def)
  have absent: "viewBoxNumbers ?B (svg []) = None"
    by (simp add: viewBoxNumbers_def getAttribute_def svg_def)
  then have noviewBox:
    "\<forall>viewBox. viewBoxNumbers ?B (svg []) = Some viewBox \<longrightarrow> length viewBox \<noteq> 4"
    by simp
  have zero: "parseInt ?B (ascii ''0'') = Num 0"
    by (simp add: sampleBrowser_def readDecimal_def ascii_def)
  have valid: "isValidSvg (markup [])"
    by (simp add: run_text run_isValidSvg)
  have attr: "getAttribute ?E (ascii ''width'') = Some (ascii ''abc'')"
    by (simp add: getAttribute_def svg_def)
  have unreadable: "falsy (parseInt ?B (ascii ''abc''))"
    by (simp add: sampleBrowser_def readDecimal_def falsy_def ascii_def)
  note inst = defaults_differ [OF found nowidth noheight noviewBox zero,
      where name = "ascii ''width''" and el' = ?E and v = "ascii ''abc''"]
  from inst valid attr unreadable show ?thesis
    using found nowidth noheight absent zero by blast
qed

text \<open>
  The claim as first stated fails at the self-closing \<open><svg/>\<close>: its element has none of the
  three attributes, yet the preview normalisation returns the text as it is.
\<close>

theorem defaults_differ_counterexample:
  "svgElement (parseFromString (sampleBrowser (Some (svg []))) (ascii ''<svg/>'')) = Some (svg [])
   \<and> \<not> hasAttribute (svg []) (ascii ''width'')
   \<and> \<not> hasAttribute (svg []) (ascii ''height'')
   \<and> \<not> hasAttribute (svg []) (ascii ''viewBox'')
   \<and> ensureSvgDimensions (sampleBrowser (Some (svg []))) (ascii ''<svg/>'') = ascii ''<svg/>''
   \<and> ensureSvgDimensions (sampleBrowser (Some (svg []))) (ascii ''<svg/>'')
       \<noteq> serializeToString (sampleBrowser (Some (svg [])))
            \<lparr>svgElement = Some (svg [(''width'', ''300''), (''height'', ''300'')]), surroundings = ()\<rparr>"
  by (simp add: run_sample run_isValidSvg)

section \<open>Saving the text, and the buttons\<close>

text \<open>
  C2 (as amended): what is saved as SVG is the editor text itself, with none of the
  normalisation of the image exports. \<open>downloadSvgCode\<close> saves a blob whose content is
  exactly \<open>svgCode\<close> for every text that is not only white space; \<open>exportAsImage\<close> with
  format \<open>svg\<close> saves a blob whose content is exactly \<open>svgCode\<close> whenever it gets as far
  as saving: the text is not empty, the parser finds an \<open>svg\<close> element, the data URL is
  built, the image loads and the canvas has a context.
\<close>

theorem svg_export_is_the_text:
  "(trim (svgCode st) \<noteq> [] \<longrightarrow>
      downloadSvgCode st =
        Inr (st, [SaveAs (Blob (svgCode st) ''text/plain;charset=utf-8'')
                    (fileName st @ ascii ''.svg''),
                  Toast Success SvgDownloaded]))
   \<and> (svgCode st \<noteq> []
        \<and> svgElement (parseFromString b (svgCode st)) = Some el
        \<and> base64 b (serializeElement b (sizedElement b el)) = Inr enc
        \<and> imageLoads b (ascii ''data:image/svg+xml;base64,'' @ enc)
        \<and> context2d b \<longrightarrow>
      exportAsImage b st Svg =
        Inr (st, [SaveAs (Blob (svgCode st) ''image/svg+xml;charset=utf-8'')
                    (fileName st @ ascii ''.svg''),
                  Toast Success (ExportedAs Svg)]))"
  using exportAsImage_completes [of st b el enc Svg]
  by (simp add: downloadSvgCode_def saveFormat_def)

theorem svg_export_is_the_text_witness:
  "trim (svgCode (mount (markup []))) \<noteq> []
   \<and> svgCode (mount (markup [])) \<noteq> []
   \<and> svgElement (parseFromString (sampleBrowser (Some (svg []))) (svgCode (mount (markup []))))
       = Some (svg [])
   \<and> base64 (sampleBrowser (Some (svg [])))
        (serializeElement (sampleBrowser (Some (svg [])))
           (sizedElement (sampleBrowser (Some (svg []))) (svg [])))
       = Inr (ascii '' width=800 height=600'')
   \<and> imageLoads (sampleBrowser (Some (svg [])))
        (ascii ''data:image/svg+xml;base64,'' @ ascii '' width=800 height=600'')
   \<and> context2d (sampleBrowser (Some (svg [])))
   \<and> downloadSvgCode (mount (markup [])) =
        Inr (mount (markup []),
             [SaveAs (Blob (markup []) ''text/plain;charset=utf-8'') (ascii ''svg-preview.svg''),
              Toast Success SvgDownloaded])
   \<and> exportAsImage (sampleBrowser (Some (svg []))) (mount (markup [])) Svg =
        Inr (mount (markup []),
             [SaveAs (Blob (markup []) ''image/svg+xml;charset=utf-8'') (ascii ''svg-preview.svg''),
              Toast Success (ExportedAs Svg)])"
proof -
  let ?B = "sampleBrowser (Some (svg []))"
  let ?S = "mount (markup [])"
  have trimmed: "trim (svgCode ?S) \<noteq> []"
    by (simp add: mount_def run_text trim_def ascii_def isWhiteSpace_def)
  have nonempty: "svgCode ?S \<noteq> []"
    by (simp add: mount_def run_text ascii_def)
  have found: "svgElement (parseFromString ?B (svgCode ?S)) = Some (svg [])"
    by (simp add: sampleBrowser_def)
  have enc: "base64 ?B (serializeElement ?B (sizedElement ?B (svg [])))
       = Inr (ascii '' width=800 height=600'')"
    by (simp add: run_sample ascii_def)
  have loads: "imageLoads ?B (ascii ''data:image/svg+xml;base64,'' @ ascii '' width=800 height=600'')"
    and ctx: "context2d ?B"
    by (simp_all add: sampleBrowser_def)
  note inst = svg_export_is_the_text [where st = ?S and b = ?B and el = "svg []"
      and enc = "ascii '' width=800 height=600''"]
  from inst trimmed have "downloadSvgCode ?S =
        Inr (?S, [SaveAs (Blob (markup []) ''text/plain;charset=utf-8'') (ascii ''svg-preview.svg''),
              Toast Success SvgDownloaded])"
    by (simp add: mount_def ascii_def)
  moreover from inst nonempty found enc loads ctx
  have "exportAsImage ?B ?S Svg =
        Inr (?S, [SaveAs (Blob (markup []) ''image/svg+xml;charset=utf-8'') (ascii ''svg-preview.svg''),
              Toast Success (ExportedAs Svg)])"
    by (simp add: mount_def ascii_def)
  ultimately show ?thesis
    using trimmed nonempty found enc loads ctx by blast
qed

text \<open>
  The claim as first stated fails for the text of one space, for which \<open>downloadSvgCode\<close>
  saves nothing, and for a text without an \<open>svg\<close> element, for which \<open>exportAsImage\<close>
  saves nothing.
\<close>

theorem svg_export_is_the_text_counterexample:
  "svgCode (mount (ascii '' '')) \<noteq> []
   \<and> downloadSvgCode (mount (ascii '' '')) =
        Inr (mount (ascii '' ''), [Toast Error NoSvgToDownload])
   \<and> svgCode (mount (ascii ''hello'')) \<noteq> []
   \<and> exportAsImage (sampleBrowser None) (mount (ascii ''hello'')) Svg =
        Inr (mount (ascii ''hello''), [Toast Error InvalidSvgCode])"
  by (simp add: mount_def downloadSvgCode_def trim_def isWhiteSpace_def ascii_def
      exportAsImage_def exportTry_def sampleBrowser_def)

text \<open>
  C5 (as amended): for every editor text that is empty or fails the validity check, the
  PNG and JPEG export buttons are disabled. The download and copy buttons are disabled
  exactly when the text is empty.
\<close>

theorem malformed_disables_export:
  "(svgCode st = [] \<or> \<not> isValidSvg (svgCode st) \<longrightarrow>
      disabled ExportPng st \<and> disabled ExportJpeg st)
   \<and> disabled DownloadSvg st = (svgCode st = [])
   \<and> disabled CopySvg st = (svgCode st = [])"
  by simp

theorem malformed_disables_export_witness:
  "\<not> isValidSvg (svgCode (mount (ascii ''<svg>'')))
   \<and> disabled ExportPng (mount (ascii ''<svg>''))
   \<and> disabled ExportJpeg (mount (ascii ''<svg>''))
   \<and> \<not> disabled DownloadSvg (mount (ascii ''<svg>''))
   \<and> disabled DownloadSvg (mount [])
   \<and> disabled CopySvg (mount [])"
proof -
  have cleared: "svgCode (mount []) = []"
    by (simp add: mount_def)
  have invalid: "\<not> isValidSvg (svgCode (mount (ascii ''<svg>'')))"
    by (simp add: mount_def run_isValidSvg)
  have nonempty: "svgCode (mount (ascii ''<svg>'')) \<noteq> []"
    by (simp add: mount_def ascii_def)
  from malformed_disables_export [of "mount (ascii ''<svg>'')"] malformed_disables_export [of "mount []"]
    invalid nonempty cleared
  show ?thesis by blast
qed

text \<open>
  The claim as first stated fails for the text \<open><svg>\<close>: it fails the validity check,
  and the download and copy buttons stay enabled.
\<close>

theorem malformed_disables_export_counterexample:
  "svgCode (mount (ascii ''<svg>'')) \<noteq> []
   \<and> \<not> isValidSvg (svgCode (mount (ascii ''<svg>'')))
   \<and> \<not> disabled DownloadSvg (mount (ascii ''<svg>''))
   \<and> \<not> disabled CopySvg (mount (ascii ''<svg>''))"
  by (simp add: mount_def run_isValidSvg)

section \<open>Failures stay inside the handlers\<close>

lemma exportAsImage_returns: "\<exists>es. exportAsImage b st format = Inr (st, es)"
  by (simp add: exportAsImage_def split: sum.splits)

lemma exportAsImage_caught:
  "exportTry b st format = Inl (es, e) \<Longrightarrow> svgCode st \<noteq> [] \<Longrightarrow>
     exportAsImage b st format = Inr (st, es @ [ConsoleError, Toast Error ExportFailed])"
  by (simp add: exportAsImage_def)

lemma exportTry_throws:
  assumes "svgElement (parseFromString b (svgCode st)) = Some el"
  shows "base64 b (serializeElement b (sizedElement b el)) = Inl e \<Longrightarrow>
         exportTry b st format = Inl ([], e)"
    and "base64 b (serializeElement b (sizedElement b el)) = Inr enc \<Longrightarrow>
         \<not> imageLoads b (ascii ''data:image/svg+xml;base64,'' @ enc) \<Longrightarrow>
         exportTry b st format = Inl ([ConsoleError], ImageLoadFailed)"
    and "base64 b (serializeElement b (sizedElement b el)) = Inr enc \<Longrightarrow>
         imageLoads b (ascii ''data:image/svg+xml;base64,'' @ enc) \<Longrightarrow> \<not> context2d b \<Longrightarrow>
         exportTry b st format = Inl ([], CanvasContextUnavailable)"
  using assms by (simp_all add: exportTry_def Let_def)

lemma exportTry_logs_only:
  "exportTry b st format = Inl (es, e) \<Longrightarrow> es = [] \<or> es = [ConsoleError]"
  by (auto simp: exportTry_def Let_def split: option.splits sum.splits if_splits)

lemma exportAsImage_invalid:
  "svgCode st \<noteq> [] \<Longrightarrow> svgElement (parseFromString b (svgCode st)) = None \<Longrightarrow>
     exportAsImage b st format = Inr (st, [Toast Error InvalidSvgCode])"
  by (simp add: exportAsImage_def exportTry_def)

lemma paste_cases:
  "handlePasteFromClipboard (Inl e) st = Inr (st, [ConsoleError, Toast Error PasteReadFailed])"
  "\<not> isValidSvg t \<Longrightarrow> handlePasteFromClipboard (Inr t) st = Inr (st, [Toast Error PasteNotSvg])"
  "isValidSvg t \<Longrightarrow>
     handlePasteFromClipboard (Inr t) st = Inr (st\<lparr>svgCode := t\<rparr>, [Toast Success PasteImported])"
  by (simp_all add: handlePasteFromClipboard_def)

lemma copy_cases:
  "trim (svgCode st) = [] \<Longrightarrow> copySvgCode w st = Inr (st, [Toast Error NoSvgToCopy])"
  "trim (svgCode st) \<noteq> [] \<Longrightarrow>
     copySvgCode (Some e) st = Inr (st, [ConsoleError, Toast Error CopyFailed])"
  "trim (svgCode st) \<noteq> [] \<Longrightarrow>
     copySvgCode None st = Inr (st, [ClipboardWrite (svgCode st), Toast Success SvgCopied])"
  by (simp_all add: copySvgCode_def)

text \<open>
  C7: every failure during a user action is caught in the handler of that action and
  shown as one error notification; none leaves the handler. \<open>exportAsImage\<close>,
  \<open>handlePasteFromClipboard\<close> and \<open>copySvgCode\<close> return normally whatever the platform
  does, with the state as it was. A text without an \<open>svg\<close> element, an image that does not
  load, a canvas without a context, and any other exception thrown while exporting, a
  clipboard that cannot be read or holds no valid SVG, and a clipboard that cannot be
  written each end in exactly one error notification and, the console apart, in nothing
  else. An image that does not load is logged twice, by its \<open>onerror\<close> handler and by the
  \<open>catch\<close>; every other caught exception is logged once.
\<close>

theorem failures_are_caught:
  "(\<exists>es. exportAsImage b st format = Inr (st, es))
   \<and> (\<exists>st' es. handlePasteFromClipboard readText st = Inr (st', es))
   \<and> (\<exists>es. copySvgCode writeText st = Inr (st, es))
   \<and> (svgCode st \<noteq> [] \<and> svgElement (parseFromString b (svgCode st)) = None \<longrightarrow>
        exportAsImage b st format = Inr (st, [Toast Error InvalidSvgCode]))
   \<and> (svgCode st \<noteq> [] \<and> svgElement (parseFromString b (svgCode st)) = Some el
        \<and> base64 b (serializeElement b (sizedElement b el)) = Inr enc
        \<and> \<not> imageLoads b (ascii ''data:image/svg+xml;base64,'' @ enc) \<longrightarrow>
        exportAsImage b st format =
          Inr (st, [ConsoleError, ConsoleError, Toast Error ExportFailed]))
   \<and> (svgCode st \<noteq> [] \<and> svgElement (parseFromString b (svgCode st)) = Some el
        \<and> base64 b (serializeElement b (sizedElement b el)) = Inr enc
        \<and> imageLoads b (ascii ''data:image/svg+xml;base64,'' @ enc) \<and> \<not> context2d b \<longrightarrow>
        exportAsImage b st format = Inr (st, [ConsoleError, Toast Error ExportFailed]))
   \<and> (svgCode st \<noteq> [] \<and> exportTry b st format = Inl (logged, e) \<longrightarrow>
        exportAsImage b st format = Inr (st, logged @ [ConsoleError, Toast Error ExportFailed])
        \<and> toasts (logged @ [ConsoleError, Toast Error ExportFailed]) = [(Error, ExportFailed)])
   \<and> (readText = Inl e \<longrightarrow>
        handlePasteFromClipboard readText st =
          Inr (st, [ConsoleError, Toast Error PasteReadFailed]))
   \<and> (readText = Inr t \<and> \<not> isValidSvg t \<longrightarrow>
        handlePasteFromClipboard readText st = Inr (st, [Toast Error PasteNotSvg]))
   \<and> (trim (svgCode st) \<noteq> [] \<and> writeText = Some e \<longrightarrow>
        copySvgCode writeText st = Inr (st, [ConsoleError, Toast Error CopyFailed]))"
proof -
  have paste: "\<exists>st' es. handlePasteFromClipboard readText st = Inr (st', es)"
    by (simp add: handlePasteFromClipboard_def split: sum.splits)
  have copy: "\<exists>es. copySvgCode writeText st = Inr (st, es)"
    by (simp add: copySvgCode_def split: option.splits)
  have decode: "exportAsImage b st format =
      Inr (st, [ConsoleError, ConsoleError, Toast Error ExportFailed])"
    if "svgCode st \<noteq> []" "svgElement (parseFromString b (svgCode st)) = Some el"
      "base64 b (serializeElement b (sizedElement b el)) = Inr enc"
      "\<not> imageLoads b (ascii ''data:image/svg+xml;base64,'' @ enc)"
    using exportAsImage_caught
        [OF exportTry_throws(2) [OF that(2,3,4), where format = format] that(1)]
    by simp
  have nocontext: "exportAsImage b st format = Inr (st, [ConsoleError, Toast Error ExportFailed])"
    if "svgCode st \<noteq> []" "svgElement (parseFromString b (svgCode st)) = Some el"
      "base64 b (serializeElement b (sizedElement b el)) = Inr enc"
      "imageLoads b (ascii ''data:image/svg+xml;base64,'' @ enc)" "\<not> context2d b"
    using exportAsImage_caught
        [OF exportTry_throws(3) [OF that(2,3,4,5), where format = format] that(1)]
    by simp
  have one: "toasts (logged @ [ConsoleError, Toast Error ExportFailed]) = [(Error, ExportFailed)]"
    if "exportTry b st format = Inl (logged, e)"
    using exportTry_logs_only [OF that] by (auto simp: toasts_def)
  show ?thesis
    using exportAsImage_returns [of b st format] paste copy exportAsImage_invalid [of st b format]
      decode nocontext exportAsImage_caught [of b st format logged e] one
      paste_cases(1) [of e st] paste_cases(2) [of t st] copy_cases(2) [of st e]
    by blast
qed

theorem failures_are_caught_witness:
  "svgCode (mount (markup [])) \<noteq> []
   \<and> svgElement (parseFromString ((sampleBrowser (Some (svg [])))\<lparr>context2d := False\<rparr>)
        (svgCode (mount (markup [])))) = Some (svg [])
   \<and> base64 ((sampleBrowser (Some (svg [])))\<lparr>context2d := False\<rparr>)
        (serializeElement ((sampleBrowser (Some (svg [])))\<lparr>context2d := False\<rparr>)
           (sizedElement ((sampleBrowser (Some (svg [])))\<lparr>context2d := False\<rparr>) (svg [])))
       = Inr (ascii '' width=800 height=600'')
   \<and> imageLoads ((sampleBrowser (Some (svg [])))\<lparr>context2d := False\<rparr>)
        (ascii ''data:image/svg+xml;base64,'' @ ascii '' width=800 height=600'')
   \<and> \<not> context2d ((sampleBrowser (Some (svg [])))\<lparr>context2d := False\<rparr>)
   \<and> exportAsImage ((sampleBrowser (Some (svg [])))\<lparr>context2d := False\<rparr>) (mount (markup [])) Png
       = Inr (mount (markup []), [ConsoleError, Toast Error ExportFailed])
   \<and> svgElement (parseFromString ((sampleBrowser (Some (svg [])))\<lparr>imageLoads := (\<lambda>src. False)\<rparr>)
        (svgCode (mount (markup [])))) = Some (svg [])
   \<and> base64 ((sampleBrowser (Some (svg [])))\<lparr>imageLoads := (\<lambda>src. False)\<rparr>)
        (serializeElement ((sampleBrowser (Some (svg [])))\<lparr>imageLoads := (\<lambda>src. False)\<rparr>)
           (sizedElement ((sampleBrowser (Some (svg [])))\<lparr>imageLoads := (\<lambda>src. False)\<rparr>) (svg [])))
       = Inr (ascii '' width=800 height=600'')
   \<and> \<not> imageLoads ((sampleBrowser (Some (svg [])))\<lparr>imageLoads := (\<lambda>src. False)\<rparr>)
        (ascii ''data:image/svg+xml;base64,'' @ ascii '' width=800 height=600'')
   \<and> exportAsImage ((sampleBrowser (Some (svg [])))\<lparr>imageLoads := (\<lambda>src. False)\<rparr>)
        (mount (markup [])) Png
       = Inr (mount (markup []), [ConsoleError, ConsoleError, Toast Error ExportFailed])
   \<and> exportTry ((sampleBrowser (Some (svg [])))\<lparr>base64 := (\<lambda>s. Inl (PlatformError (ascii ''URIError'')))\<rparr>)
        (mount (markup [])) Svg = Inl ([], PlatformError (ascii ''URIError''))
   \<and> toasts ([] @ [ConsoleError, Toast Error ExportFailed]) = [(Error, ExportFailed)]
   \<and> exportAsImage
        ((sampleBrowser (Some (svg [])))\<lparr>base64 := (\<lambda>s. Inl (PlatformError (ascii ''URIError'')))\<rparr>)
        (mount (markup [])) Svg
       = Inr (mount (markup []), [ConsoleError, Toast Error ExportFailed])
   \<and> svgElement (parseFromString (sampleBrowser None) (svgCode (mount (markup [])))) = None
   \<and> exportAsImage (sampleBrowser None) (mount (markup [])) Png
       = Inr (mount (markup []), [Toast Error InvalidSvgCode])
   \<and> handlePasteFromClipboard (Inl (PlatformError (ascii ''NotAllowedError''))) (mount (markup []))
       = Inr (mount (markup []), [ConsoleError, Toast Error PasteReadFailed])
   \<and> \<not> isValidSvg (ascii ''<svg>'')
   \<and> handlePasteFromClipboard (Inr (ascii ''<svg>'')) (mount (markup []))
       = Inr (mount (markup []), [Toast Error PasteNotSvg])
   \<and> trim (svgCode (mount (markup []))) \<noteq> []
   \<and> copySvgCode (Some (PlatformError (ascii ''NotAllowedError''))) (mount (markup []))
       = Inr (mount (markup []), [ConsoleError, Toast Error CopyFailed])"
proof -
  let ?B = "(sampleBrowser (Some (svg [])))\<lparr>context2d := False\<rparr>"
  let ?S = "mount (markup [])"
  let ?E = "PlatformError (ascii ''NotAllowedError'')"
  have nonempty: "svgCode ?S \<noteq> []"
    by (simp add: mount_def run_text ascii_def)
  have trimmed: "trim (svgCode ?S) \<noteq> []"
    by (simp add: mount_def run_text trim_def ascii_def isWhiteSpace_def)
  have found: "svgElement (parseFromString ?B (svgCode ?S)) = Some (svg [])"
    by (simp add: sampleBrowser_def)
  have enc: "base64 ?B (serializeElement ?B (sizedElement ?B (svg [])))
       = Inr (ascii '' width=800 height=600'')"
    by (simp add: run_sample ascii_def)
  have ctx: "\<not> context2d ?B"
    by simp
  have loads: "imageLoads ?B (ascii ''data:image/svg+xml;base64,'' @ ascii '' width=800 height=600'')"
    by (simp add: sampleBrowser_def)
  let ?I = "(sampleBrowser (Some (svg [])))\<lparr>imageLoads := (\<lambda>src. False)\<rparr>"
  have found': "svgElement (parseFromString ?I (svgCode ?S)) = Some (svg [])"
    by (simp add: sampleBrowser_def)
  have enc': "base64 ?I (serializeElement ?I (sizedElement ?I (svg [])))
       = Inr (ascii '' width=800 height=600'')"
    by (simp add: run_sample ascii_def)
  have fails: "\<not> imageLoads ?I
      (ascii ''data:image/svg+xml;base64,'' @ ascii '' width=800 height=600'')"
    by simp
  note image = failures_are_caught [where b = ?I and st = ?S and format = Png
      and el = "svg []" and enc = "ascii '' width=800 height=600''"]
  from image nonempty found' enc' fails
  have twice: "exportAsImage ?I ?S Png =
      Inr (?S, [ConsoleError, ConsoleError, Toast Error ExportFailed])"
    by blast
  have none: "svgElement (parseFromString (sampleBrowser None) (svgCode ?S)) = None"
    by (simp add: sampleBrowser_def)
  have invalid: "\<not> isValidSvg (ascii ''<svg>'')"
    by (simp add: run_isValidSvg)
  note canvas = failures_are_caught [where b = ?B and st = ?S and format = Png
      and el = "svg []" and enc = "ascii '' width=800 height=600''"
      and readText = "Inl ?E" and e = ?E and writeText = "Some ?E"]
  note parse = failures_are_caught [where b = "sampleBrowser None" and st = ?S and format = Png
      and readText = "Inr (ascii ''<svg>'')" and t = "ascii ''<svg>''"]
  let ?U = "(sampleBrowser (Some (svg [])))\<lparr>base64 := (\<lambda>s. Inl (PlatformError (ascii ''URIError'')))\<rparr>"
  have thrown: "exportTry ?U ?S Svg = Inl ([], PlatformError (ascii ''URIError''))"
    by (simp add: exportTry_def sampleBrowser_def)
  note encode = failures_are_caught [where b = ?U and st = ?S and format = Svg
      and logged = "[]" and e = "PlatformError (ascii ''URIError'')"]
  from encode nonempty thrown
  have caught: "exportAsImage ?U ?S Svg = Inr (?S, [] @ [ConsoleError, Toast Error ExportFailed])
      \<and> toasts ([] @ [ConsoleError, Toast Error ExportFailed]) = [(Error, ExportFailed)]"
    by blast
  then have "exportAsImage ?U ?S Svg = Inr (?S, [ConsoleError, Toast Error ExportFailed])"
    by simp
  moreover from canvas nonempty found enc loads ctx
  have "exportAsImage ?B ?S Png = Inr (?S, [ConsoleError, Toast Error ExportFailed])"
    by blast
  moreover from parse nonempty none
  have "exportAsImage (sampleBrowser None) ?S Png = Inr (?S, [Toast Error InvalidSvgCode])"
    by blast
  moreover from canvas
  have "handlePasteFromClipboard (Inl ?E) ?S = Inr (?S, [ConsoleError, Toast Error PasteReadFailed])"
    by blast
  moreover from parse invalid
  have "handlePasteFromClipboard (Inr (ascii ''<svg>'')) ?S = Inr (?S, [Toast Error PasteNotSvg])"
    by blast
  moreover from canvas trimmed
  have "copySvgCode (Some ?E) ?S = Inr (?S, [ConsoleError, Toast Error CopyFailed])"
    by blast
  ultimately show ?thesis
    using nonempty trimmed found enc loads ctx found' enc' fails twice none invalid thrown caught
    by blast
qed

text \<open>
  C10: pasting from the clipboard is atomic for the editor text.
  \<open>handlePasteFromClipboard\<close> sets the text to the clipboard content only when that content
  passes the validity check; when the content is invalid or the clipboard cannot be read,
  the state is unchanged and only an error notification is shown.
\<close>

theorem paste_is_atomic:
  "(readText = Inr t \<and> isValidSvg t \<longrightarrow>
      handlePasteFromClipboard readText st =
        Inr (st\<lparr>svgCode := t\<rparr>, [Toast Success PasteImported]))
   \<and> (readText = Inr t \<and> \<not> isValidSvg t \<longrightarrow>
        handlePasteFromClipboard readText st = Inr (st, [Toast Error PasteNotSvg]))
   \<and> (readText = Inl e \<longrightarrow>
        handlePasteFromClipboard readText st =
          Inr (st, [ConsoleError, Toast Error PasteReadFailed]))
   \<and> (handlePasteFromClipboard readText st = Inr (st', es) \<longrightarrow>
        (st' = st \<and> (\<exists>m. toasts es = [(Error, m)]))
        \<or> (\<exists>text. readText = Inr text \<and> isValidSvg text \<and> st' = st\<lparr>svgCode := text\<rparr>))"
  using paste_cases [of _ st]
  by (auto simp: handlePasteFromClipboard_def toasts_def split: sum.splits if_splits)

theorem paste_is_atomic_witness:
  "isValidSvg (markup [])
   \<and> handlePasteFromClipboard (Inr (markup [])) (mount []) =
       Inr ((mount [])\<lparr>svgCode := markup []\<rparr>, [Toast Success PasteImported])
   \<and> \<not> isValidSvg (ascii ''<svg>'')
   \<and> handlePasteFromClipboard (Inr (ascii ''<svg>'')) (mount []) =
       Inr (mount [], [Toast Error PasteNotSvg])
   \<and> handlePasteFromClipboard (Inl (PlatformError (ascii ''NotAllowedError''))) (mount []) =
       Inr (mount [], [ConsoleError, Toast Error PasteReadFailed])"
proof -
  have valid: "isValidSvg (markup [])"
    by (simp add: run_text run_isValidSvg)
  have invalid: "\<not> isValidSvg (ascii ''<svg>'')"
    by (simp add: run_isValidSvg)
  from paste_is_atomic [where readText = "Inr (markup [])" and t = "markup []" and st = "mount []"]
    paste_is_atomic [where readText = "Inr (ascii ''<svg>'')" and t = "ascii ''<svg>''" and st = "mount []"]
    paste_is_atomic [where readText = "Inl (PlatformError (ascii ''NotAllowedError''))"
      and e = "PlatformError (ascii ''NotAllowedError'')" and st = "mount []"]
    valid invalid
  show ?thesis by blast
qed

section \<open>The reachable states\<close>

lemma paste_keeps_rest:
  assumes "handlePasteFromClipboard readText st = Inr (st', es)"
  shows "\<exists>text. st' = st\<lparr>svgCode := text\<rparr>"
proof (cases readText)
  case (Inl e)
  with assms have "st' = st" by (simp add: handlePasteFromClipboard_def)
  then have "st' = st\<lparr>svgCode := svgCode st\<rparr>" by simp
  then show ?thesis ..
next
  case (Inr t)
  show ?thesis
  proof (cases "isValidSvg t")
    case True
    with Inr assms have "st' = st\<lparr>svgCode := t\<rparr>" by (simp add: handlePasteFromClipboard_def)
    then show ?thesis ..
  next
    case False
    with Inr assms have "st' = st" by (simp add: handlePasteFromClipboard_def)
    then have "st' = st\<lparr>svgCode := svgCode st\<rparr>" by simp
    then show ?thesis ..
  qed
qed

lemma synced_syncEditor:
  "synced b st \<Longrightarrow> synced b (syncEditor b (st\<lparr>svgCode := text\<rparr>))"
  by (auto simp: synced_def syncEditor_def updateListener_def)

lemma scale_syncEditor: "scale (syncEditor b (st\<lparr>svgCode := text\<rparr>)) = scale st"
  by (simp add: syncEditor_def updateListener_def split: option.splits)

lemma reachable_synced: "reachable b st \<Longrightarrow> synced b st"
proof (induction rule: reachable.induct)
  case (mounted initialSvg)
  show ?case by (simp add: synced_def mount_def)
next
  case (edited st t)
  show ?case by (simp add: synced_def updateListener_def)
next
  case (pasted st readText st' es)
  from paste_keeps_rest [OF pasted.hyps(2)] obtain t where "st' = st\<lparr>svgCode := t\<rparr>" ..
  with pasted.IH show ?case by (simp add: synced_syncEditor)
next
  case (uploaded st t)
  then show ?case by (simp add: synced_syncEditor)
next
  case (cleared st)
  then show ?case by (simp add: clearSvgCode_def synced_syncEditor)
next
  case (renamed st v)
  then show ?case by (simp add: synced_def handleFileNameChange_def)
next
  case (zoomedIn st)
  then show ?case by (simp add: synced_def zoomIn_def)
next
  case (zoomedOut st)
  then show ?case by (simp add: synced_def zoomOut_def)
next
  case (slid st v)
  then show ?case by (simp add: synced_def sliderChange_def resetPosition_def handleScaleChange_def)
qed

lemma reachable_scale: "reachable b st \<Longrightarrow> 0.1 \<le> scale st \<and> scale st \<le> 3"
proof (induction rule: reachable.induct)
  case (mounted initialSvg)
  show ?case by (simp add: mount_def)
next
  case (edited st t)
  then show ?case by (simp add: updateListener_def)
next
  case (pasted st readText st' es)
  from paste_keeps_rest [OF pasted.hyps(2)] obtain t where "st' = st\<lparr>svgCode := t\<rparr>" ..
  with pasted.IH show ?case by (simp add: scale_syncEditor)
next
  case (uploaded st t)
  then show ?case by (simp add: scale_syncEditor)
next
  case (cleared st)
  then show ?case by (simp add: clearSvgCode_def scale_syncEditor)
next
  case (renamed st v)
  then show ?case by (simp add: handleFileNameChange_def)
next
  case (zoomedIn st)
  then show ?case by (simp add: zoomIn_def)
next
  case (zoomedOut st)
  then show ?case by (simp add: zoomOut_def)
next
  case (slid st v)
  then show ?case by (simp add: sliderChange_def resetPosition_def handleScaleChange_def)
qed

text \<open>
  C9: the zoom factor of the preview is always between 0.1 and 3. It starts at 1,
  \<open>zoomIn\<close> takes it to \<open>min (scale + 0.1) 3\<close>, \<open>zoomOut\<close> to \<open>max (scale - 0.1) 0.1\<close>,
  the range input sets it to a value between its \<open>min\<close> 0.1 and its \<open>max\<close> 3, and so every
  state the component reaches has its scale within the bounds.
\<close>

theorem zoom_within_bounds:
  "scale (mount initialSvg) = 1
   \<and> scale (zoomIn st) = min (scale st + 0.1) 3
   \<and> scale (zoomOut st) = max (scale st - 0.1) 0.1
   \<and> scale (sliderChange v st) = v
   \<and> (reachable b st \<longrightarrow> 0.1 \<le> scale st \<and> scale st \<le> 3)"
  using reachable_scale [of b st]
  by (simp add: mount_def zoomIn_def zoomOut_def sliderChange_def resetPosition_def
      handleScaleChange_def)

theorem zoom_within_bounds_witness:
  "reachable (sampleBrowser None) (zoomIn (sliderChange 3 (mount [])))
   \<and> scale (zoomIn (sliderChange 3 (mount []))) = 3
   \<and> reachable (sampleBrowser None) (zoomOut (sliderChange 0.1 (mount [])))
   \<and> scale (zoomOut (sliderChange 0.1 (mount []))) = 0.1"
proof -
  have top: "reachable (sampleBrowser None) (zoomIn (sliderChange 3 (mount [])))"
    by (intro reachable.zoomedIn reachable.slid reachable.mounted) simp_all
  have bottom: "reachable (sampleBrowser None) (zoomOut (sliderChange 0.1 (mount [])))"
    by (intro reachable.zoomedOut reachable.slid reachable.mounted) simp_all
  from zoom_within_bounds [where st = "sliderChange 3 (mount [])" and v = 3 and b = "sampleBrowser None"]
    zoom_within_bounds [where st = "mount []" and v = 3]
  have "scale (zoomIn (sliderChange 3 (mount []))) = 3" by simp
  moreover
  from zoom_within_bounds [where st = "zoomOut (sliderChange 0.1 (mount []))" and b = "sampleBrowser None"]
    bottom
  have "0.1 \<le> scale (zoomOut (sliderChange 0.1 (mount [])))" by blast
  moreover
  from zoom_within_bounds [where st = "sliderChange 0.1 (mount [])" and v = "0.1" and b = "sampleBrowser None"]
    zoom_within_bounds [where st = "mount []" and v = "0.1"]
  have "scale (zoomOut (sliderChange 0.1 (mount []))) = 0.1" by simp
  ultimately show ?thesis using top bottom by blast
qed

text \<open>
  C6: clearing the editor empties the preview. \<open>clearSvgCode\<close> sets the editor text to the
  empty string; \<open>ensureSvgDimensions\<close> returns the empty string unchanged; and once the
  editor effect has run, in any state the component reaches, the preview string is empty
  and the preview pane shows the placeholder.
\<close>

theorem clearing_empties_preview:
  "ensureSvgDimensions b [] = []
   \<and> svgCode (fst (clearSvgCode st)) = []
   \<and> (reachable b st \<longrightarrow>
        svgCode (syncEditor b (fst (clearSvgCode st))) = []
        \<and> previewSvgCode (syncEditor b (fst (clearSvgCode st))) = []
        \<and> renderPreview (syncEditor b (fst (clearSvgCode st))) = Placeholder)"
proof -
  have empty: "ensureSvgDimensions b [] = []"
    by (simp add: ensureSvgDimensions_def)
  have "previewSvgCode (syncEditor b (fst (clearSvgCode st))) = []
        \<and> svgCode (syncEditor b (fst (clearSvgCode st))) = []" if "reachable b st"
  proof -
    from that have "synced b st" by (rule reachable_synced)
    then show ?thesis
      by (auto simp: synced_def clearSvgCode_def syncEditor_def updateListener_def empty)
  qed
  then show ?thesis
    by (simp add: empty clearSvgCode_def renderPreview_def)
qed

theorem clearing_empties_preview_witness:
  "reachable (sampleBrowser (Some (svg [])))
     (updateListener (sampleBrowser (Some (svg []))) (markup []) (mount []))
   \<and> renderPreview (updateListener (sampleBrowser (Some (svg []))) (markup []) (mount []))
       = SvgContent (ascii '' width=300 height=300'') 1 (0, 0)
   \<and> renderPreview
        (syncEditor (sampleBrowser (Some (svg [])))
           (fst (clearSvgCode
                   (updateListener (sampleBrowser (Some (svg []))) (markup []) (mount [])))))
       = Placeholder"
proof -
  let ?B = "sampleBrowser (Some (svg []))"
  have reached: "reachable ?B (updateListener ?B (markup []) (mount []))"
    by (intro reachable.edited reachable.mounted)
  have "ensureSvgDimensions ?B (markup []) = ascii '' width=300 height=300''"
    by (simp add: run_sample run_text run_isValidSvg)
  then have "renderPreview (updateListener ?B (markup []) (mount []))
       = SvgContent (ascii '' width=300 height=300'') 1 (0, 0)"
    by (simp add: renderPreview_def updateListener_def mount_def ascii_def)
  with clearing_empties_preview [of ?B "updateListener ?B (markup []) (mount [])"] reached
  show ?thesis by blast
qed

end
